theory Spec2Isabelle
  imports Main "HOL-Library.Word" "HOL-Library.Sublist"
begin

section \<open>Objective-C interaction of IRGen (lib/IRGen/GenObjC.cpp)\<close>

text \<open>
  The development follows the translation unit from top to bottom: the selector class
  with its naming families, the per-module symbol cache, the choice of the messenger for a
  message send, the partial application forwarder, the type encoding of a method and the
  descriptor parts of methods, properties and subscripts, and the predicates that decide
  which declarations get a descriptor.

  Fatal paths of the source (\<^verbatim>\<open>llvm_unreachable\<close>, \<^verbatim>\<open>assert\<close>, a failing
  \<^verbatim>\<open>cast\<close>) are values of the type \<open>fatal\<close>; a function that can reach one returns
  \<open>fatal + 'a\<close>.
\<close>

datatype fatal =
    Unreachable string
  | AssertionFailed string
  | BadCast string
  | NullDereference string

subsection \<open>Selectors and their families\<close>

text \<open>
  \<^verbatim>\<open>FOREACH_FAMILY\<close> lists five families in the order Alloc, Copy, Init, MutableCopy,
  New; the enumeration starts with None.
\<close>

datatype Family = FamilyNone | Alloc | Copy | Init | MutableCopy | New

text \<open>
  \<^verbatim>\<open>islower\<close> of the C library in the C locale, in which the compiler runs: the
  lowercase letters are the bytes 97 to 122.
\<close>

definition islower :: "char \<Rightarrow> bool" where
  "islower c = (97 \<le> (of_char c :: nat) \<and> (of_char c :: nat) \<le> 122)"

text \<open>\<^verbatim>\<open>StringRef::startswith\<close>.\<close>

definition startswith :: "string \<Rightarrow> string \<Rightarrow> bool" where
  "startswith text pre = prefix pre text"

text \<open>
  \<^verbatim>\<open>Selector::hasPrefix\<close>: the text starts with the prefix and either ends there or
  goes on with a character that is not lowercase.
\<close>

definition hasPrefix :: "string \<Rightarrow> string \<Rightarrow> bool" where
  "hasPrefix text pre =
     (if \<not> startswith text pre then False
      else if length text = length pre then True
      else \<not> islower (text ! length pre))"

text \<open>
  The loop \<^verbatim>\<open>while (!text.empty() && text[0] == '_') text = text.substr(1);\<close>
\<close>

fun skipUnderscores :: "string \<Rightarrow> string" where
  "skipUnderscores [] = []"
| "skipUnderscores (c # cs) = (if c = CHR ''_'' then skipUnderscores cs else c # cs)"

text \<open>\<^verbatim>\<open>Selector::getFamily\<close>, with \<^verbatim>\<open>CHECK_PREFIX\<close> expanded over the families.\<close>

definition getFamily :: "string \<Rightarrow> Family" where
  "getFamily str =
     (let text = skipUnderscores str in
      if hasPrefix text ''alloc'' then Alloc
      else if hasPrefix text ''copy'' then Copy
      else if hasPrefix text ''init'' then Init
      else if hasPrefix text ''mutableCopy'' then MutableCopy
      else if hasPrefix text ''new'' then New
      else FamilyNone)"

text \<open>
  The classification as the specification words it: a table of families and prefixes, and
  a match of a prefix that is valid when the character after it, if any, is not lowercase.
\<close>

definition family_table :: "(Family \<times> string) list" where
  "family_table =
     [(Alloc, ''alloc''), (Copy, ''copy''), (Init, ''init''),
      (MutableCopy, ''mutableCopy''), (New, ''new'')]"

definition prefix_match :: "string \<Rightarrow> string \<Rightarrow> bool" where
  "prefix_match text pre =
     (take (length pre) text = pre \<and>
      (case drop (length pre) text of [] \<Rightarrow> True | c # _ \<Rightarrow> \<not> islower c))"

definition family_by_table :: "string \<Rightarrow> Family" where
  "family_by_table text =
     (case find (\<lambda>(_, pre). prefix_match text pre) family_table of
        None \<Rightarrow> FamilyNone
      | Some (label, _) \<Rightarrow> label)"

subsection \<open>Types and declarations of the AST\<close>

text \<open>
  The AST lives outside this translation unit. A type is modelled by the constructors the
  unit distinguishes: tuples, the sugar of a parenthesised type, the two function types
  (each with its input, its result and the block flag of its \<^verbatim>\<open>ExtInfo\<close>), bound
  generic types, and every other type by an identifier.
\<close>

datatype Type =
    TupleType "Type list"
  | ParenType Type
  | FunctionType Type Type bool
  | PolymorphicFunctionType Type Type bool
  | BoundGenericType nat
  | NominalType nat

text \<open>\<^verbatim>\<open>getCanonicalType\<close> removes the sugar everywhere in the type.\<close>

fun getCanonicalType :: "Type \<Rightarrow> Type" where
  "getCanonicalType (ParenType t) = getCanonicalType t"
| "getCanonicalType (TupleType ts) = TupleType (map getCanonicalType ts)"
| "getCanonicalType (FunctionType i r b) =
     FunctionType (getCanonicalType i) (getCanonicalType r) b"
| "getCanonicalType (PolymorphicFunctionType i r b) =
     PolymorphicFunctionType (getCanonicalType i) (getCanonicalType r) b"
| "getCanonicalType (BoundGenericType n) = BoundGenericType n"
| "getCanonicalType (NominalType n) = NominalType n"

text \<open>
  \<^verbatim>\<open>getDesugaredType\<close> removes the sugar at the top only; \<^verbatim>\<open>is<T>\<close>,
  \<^verbatim>\<open>getAs<T>\<close> and \<^verbatim>\<open>castTo<T>\<close> look at the desugared type.
\<close>

fun getDesugaredType :: "Type \<Rightarrow> Type" where
  "getDesugaredType (ParenType t) = getDesugaredType t"
| "getDesugaredType t = t"

definition is_PolymorphicFunctionType :: "Type \<Rightarrow> bool" where
  "is_PolymorphicFunctionType t =
     (case getDesugaredType t of PolymorphicFunctionType _ _ _ \<Rightarrow> True | _ \<Rightarrow> False)"

definition is_BoundGenericType :: "Type \<Rightarrow> bool" where
  "is_BoundGenericType t =
     (case getDesugaredType t of BoundGenericType _ \<Rightarrow> True | _ \<Rightarrow> False)"

text \<open>
  An \<^verbatim>\<open>AnyFunctionType\<close> as the unit reads it: input, result and block flag.
  \<^verbatim>\<open>getAs<AnyFunctionType>\<close> is \<open>None\<close> where the source gets a null pointer.
\<close>

record AnyFunctionType =
  getInput :: Type
  getResult :: Type
  isBlock :: bool

definition getAs_AnyFunctionType :: "Type \<Rightarrow> AnyFunctionType option" where
  "getAs_AnyFunctionType t =
     (case getDesugaredType t of
        FunctionType i r b \<Rightarrow> Some \<lparr>getInput = i, getResult = r, isBlock = b\<rparr>
      | PolymorphicFunctionType i r b \<Rightarrow> Some \<lparr>getInput = i, getResult = r, isBlock = b\<rparr>
      | _ \<Rightarrow> None)"

text \<open>
  Declarations carry what the unit asks of them. \<open>inProtocol\<close> is
  \<^verbatim>\<open>isa<ProtocolDecl>(getDeclContext())\<close> and \<open>declaredTypeInContext\<close> is
  \<^verbatim>\<open>getDeclContext()->getDeclaredTypeInContext()\<close>. The overridden declaration is
  a field of the declaration, so a chain of overrides is finite.
\<close>

datatype FuncDecl = FuncDecl
  (func_getObjCSelector: string)
  (func_isAccessor: bool)
  (func_getType: Type)
  (func_declaredTypeInContext: Type)
  (func_inProtocol: bool)
  (func_isObjC: bool)
  (func_isIBAction: bool)
  (func_getOverriddenDecl: "FuncDecl option")

datatype ConstructorDecl = ConstructorDecl
  (ctor_getObjCSelector: string)
  (ctor_getType: Type)
  (ctor_declaredTypeInContext: Type)
  (ctor_inProtocol: bool)
  (ctor_isObjC: bool)
  (ctor_getOverriddenDecl: "ConstructorDecl option")

datatype DestructorDecl = DestructorDecl
  (dtor_getType: Type)

datatype VarDecl = VarDecl
  (var_getObjCGetterSelector: string)
  (var_getObjCSetterSelector: string)
  (var_getType: Type)
  (var_isSettable: bool)
  (var_getGetter: FuncDecl)
  (var_getSetter: FuncDecl)
  (var_declaredTypeInContext: Type)
  (var_inProtocol: bool)
  (var_isObjC: bool)
  (var_getOverriddenDecl: "VarDecl option")

datatype SubscriptDecl = SubscriptDecl
  (sub_getObjCGetterSelector: string)
  (sub_getObjCSetterSelector: string)
  (sub_getElementType: Type)
  (sub_isSettable: bool)
  (sub_getGetter: FuncDecl)
  (sub_getSetter: FuncDecl)
  (sub_declaredTypeInContext: Type)
  (sub_inProtocol: bool)
  (sub_isObjC: bool)
  (sub_getOverriddenDecl: "SubscriptDecl option")

datatype ValueDecl =
    AsFuncDecl FuncDecl
  | AsConstructorDecl ConstructorDecl
  | AsDestructorDecl DestructorDecl
  | AsVarDecl VarDecl
  | AsSubscriptDecl SubscriptDecl
  | AsClassDecl nat

subsection \<open>Selectors of declarations and of SIL declaration references\<close>

text \<open>
  \<^verbatim>\<open>SILDeclRef::Kind\<close>: the ten kinds the switch of the constructor goes through.
\<close>

datatype Kind =
    Func
  | Allocator
  | Initializer
  | EnumElement
  | Destroyer
  | Deallocator
  | GlobalAccessor
  | DefaultArgGenerator
  | IVarInitializer
  | IVarDestroyer

record SILDeclRef =
  kind :: Kind
  getDecl :: ValueDecl
  uncurryLevel :: "nat option"
  isForeign :: bool

text \<open>\<^verbatim>\<open>Selector::Selector(SILDeclRef)\<close>: the text of the selector, or the fatal path.\<close>

definition Selector_SILDeclRef :: "SILDeclRef \<Rightarrow> fatal + string" where
  "Selector_SILDeclRef ref =
     (case kind ref of
        Allocator \<Rightarrow> Inl (Unreachable ''Method does not have a selector'')
      | DefaultArgGenerator \<Rightarrow> Inl (Unreachable ''Method does not have a selector'')
      | EnumElement \<Rightarrow> Inl (Unreachable ''Method does not have a selector'')
      | GlobalAccessor \<Rightarrow> Inl (Unreachable ''Method does not have a selector'')
      | Destroyer \<Rightarrow> Inr ''dealloc''
      | Deallocator \<Rightarrow> Inr ''dealloc''
      | Func \<Rightarrow>
          (case getDecl ref of
             AsFuncDecl method \<Rightarrow> Inr (func_getObjCSelector method)
           | _ \<Rightarrow> Inl (BadCast ''FuncDecl''))
      | Initializer \<Rightarrow>
          (case getDecl ref of
             AsConstructorDecl ctor \<Rightarrow> Inr (ctor_getObjCSelector ctor)
           | _ \<Rightarrow> Inl (BadCast ''ConstructorDecl''))
      | IVarInitializer \<Rightarrow> Inr ''.cxx_construct''
      | IVarDestroyer \<Rightarrow> Inr ''.cxx_destruct'')"

text \<open>\<^verbatim>\<open>Selector::Selector(ValueDecl *)\<close>.\<close>

definition Selector_ValueDecl :: "ValueDecl \<Rightarrow> fatal + string" where
  "Selector_ValueDecl methodOrCtorOrDtor =
     (case methodOrCtorOrDtor of
        AsFuncDecl method \<Rightarrow> Inr (func_getObjCSelector method)
      | AsConstructorDecl ctor \<Rightarrow> Inr (ctor_getObjCSelector ctor)
      | AsDestructorDecl _ \<Rightarrow> Inr ''dealloc''
      | _ \<Rightarrow> Inl (Unreachable
          ''property or subscript selector should be generated using ForGetter or ForSetter constructors''))"

subsection \<open>The symbol cache of a module\<close>

text \<open>
  Constants of LLVM are uniqued, so two constants are the same pointer exactly when they are
  built the same way. The address of a global variable is its position in the list of
  globals of the module; \<open>AddrOfGlobalString\<close> and \<open>FunctionAddr\<close> stand for the results
  of \<^verbatim>\<open>getAddrOfGlobalString\<close> and \<^verbatim>\<open>getAddrOfSILFunction\<close>, and
  \<open>ProtocolData\<close> names a record that \<^verbatim>\<open>emitObjCProtocolData\<close> builds; these live in
  other units.
\<close>

datatype Constant =
    ConstantPointerNull
  | ConstantDataArray string
  | GlobalVariableAddr nat
  | GetElementPtr00 Constant
  | BitCast Constant
  | AddrOfGlobalString string
  | FunctionAddr nat
  | ProtocolData nat

datatype Linkage = ExternalLinkage | InternalLinkage | WeakAnyLinkage

datatype Visibility = DefaultVisibility | HiddenVisibility

record GlobalVariable =
  gv_name :: string
  gv_isConstant :: bool
  gv_linkage :: Linkage
  gv_initializer :: Constant
  gv_section :: string
  gv_alignment :: nat
  gv_visibility :: Visibility

record ObjCProtocolPair =
  protocolRecord :: Constant
  protocolRef :: Constant

type_synonym ProtocolDecl = nat

type_synonym ClangType = nat

text \<open>
  The Clang AST context that the Clang importer hands out, as far as the unit calls it:
  the encoding of a type, which the source appends to a string, and its size in the
  encoding, a \<^verbatim>\<open>CharUnits\<close> quantity of 64 bits.
\<close>

record ClangASTContext =
  getObjCEncodingForType :: "ClangType \<Rightarrow> string"
  getObjCEncodingTypeSize :: "ClangType \<Rightarrow> 64 word"
  VoidTy :: ClangType

text \<open>
  The module under generation: its list of globals, the three caches, the list that
  \<^verbatim>\<open>addUsedGlobal\<close> fills, the linkage and the unnamed-address flag of its functions,
  and what the unit reads of the target and the context. In the two string maps an entry
  is a pointer that the source tests for null, so \<open>None\<close> stands for no entry and for a
  null entry alike.
\<close>

record IRGenModule =
  Module :: "GlobalVariable list"
  ObjCMethodNames :: "string \<Rightarrow> Constant option"
  ObjCSelectorRefs :: "string \<Rightarrow> Constant option"
  ObjCProtocols :: "ProtocolDecl \<Rightarrow> ObjCProtocolPair option"
  LLVMUsed :: "Constant list"
  SILFunctions :: "SILDeclRef \<Rightarrow> nat option"
  functionLinkage :: "nat \<Rightarrow> Linkage"
  functionUnnamedAddr :: "nat \<Rightarrow> bool"
  getPointerSize :: "64 word"
  getPointerAlignment :: nat
  ObjCUseStret :: bool
  getClangModuleLoader :: "ClangASTContext option"

text \<open>\<^verbatim>\<open>new llvm::GlobalVariable(Module, ...)\<close> appends to the globals of the module.\<close>

definition newGlobalVariable :: "GlobalVariable \<Rightarrow> IRGenModule \<Rightarrow> nat \<times> IRGenModule" where
  "newGlobalVariable g IGM = (length (Module IGM), IGM\<lparr>Module := Module IGM @ [g]\<rparr>)"

text \<open>\<^verbatim>\<open>IRGenModule::getAddrOfObjCMethodName\<close>.\<close>

definition getAddrOfObjCMethodName :: "string \<Rightarrow> IRGenModule \<Rightarrow> Constant \<times> IRGenModule" where
  "getAddrOfObjCMethodName selector IGM =
     (case ObjCMethodNames IGM selector of
        Some entry \<Rightarrow> (entry, IGM)
      | None \<Rightarrow>
          (let init = ConstantDataArray selector;
               (global, IGM1) = newGlobalVariable
                 \<lparr>gv_name = [CHR 0x01] @ ''L_selector_data('' @ selector @ '')'',
                  gv_isConstant = True,
                  gv_linkage = InternalLinkage,
                  gv_initializer = init,
                  gv_section = ''__TEXT,__objc_methname,cstring_literals'',
                  gv_alignment = 1,
                  gv_visibility = DefaultVisibility\<rparr> IGM;
               address = GetElementPtr00 (GlobalVariableAddr global)
           in (address,
               IGM1\<lparr>ObjCMethodNames := (ObjCMethodNames IGM1)(selector \<mapsto> address)\<rparr>)))"

text \<open>\<^verbatim>\<open>IRGenModule::getAddrOfObjCSelectorRef\<close>.\<close>

definition getAddrOfObjCSelectorRef :: "string \<Rightarrow> IRGenModule \<Rightarrow> Constant \<times> IRGenModule" where
  "getAddrOfObjCSelectorRef selector IGM =
     (case ObjCSelectorRefs IGM selector of
        Some entry \<Rightarrow> (entry, IGM)
      | None \<Rightarrow>
          (let (init, IGM1) = getAddrOfObjCMethodName selector IGM;
               (global, IGM2) = newGlobalVariable
                 \<lparr>gv_name = [CHR 0x01] @ ''L_selector('' @ selector @ '')'',
                  gv_isConstant = False,
                  gv_linkage = InternalLinkage,
                  gv_initializer = init,
                  gv_section = ''__DATA,__objc_selrefs,literal_pointers,no_dead_strip'',
                  gv_alignment = getPointerAlignment IGM1,
                  gv_visibility = DefaultVisibility\<rparr> IGM1;
               IGM3 = IGM2\<lparr>LLVMUsed := LLVMUsed IGM2 @ [GlobalVariableAddr global]\<rparr>
           in (GlobalVariableAddr global,
               IGM3\<lparr>ObjCSelectorRefs :=
                 (ObjCSelectorRefs IGM3)(selector \<mapsto> GlobalVariableAddr global)\<rparr>)))"

text \<open>
  \<^verbatim>\<open>IRGenModule::getObjCProtocolGlobalVars\<close>. The emitter of the protocol record and
  the name of the protocol come from other units and are arguments: the emitter returns
  the record and the module as it leaves it. \<^verbatim>\<open>insert\<close> on the map keeps an entry
  that is already there.
\<close>

definition getObjCProtocolGlobalVars ::
  "(ProtocolDecl \<Rightarrow> IRGenModule \<Rightarrow> Constant \<times> IRGenModule) \<Rightarrow> (ProtocolDecl \<Rightarrow> string) \<Rightarrow>
   ProtocolDecl \<Rightarrow> IRGenModule \<Rightarrow> ObjCProtocolPair \<times> IRGenModule" where
  "getObjCProtocolGlobalVars emitObjCProtocolData getObjCProtocolName proto IGM =
     (case ObjCProtocols IGM proto of
        Some found \<Rightarrow> (found, IGM)
      | None \<Rightarrow>
          (let (data, IGM1) = emitObjCProtocolData proto IGM;
               protocolRecord = BitCast data;
               (protocolLabel, IGM2) = newGlobalVariable
                 \<lparr>gv_name = [CHR 0x01] @ ''l_OBJC_LABEL_PROTOCOL_$_'' @ getObjCProtocolName proto,
                  gv_isConstant = False,
                  gv_linkage = WeakAnyLinkage,
                  gv_initializer = protocolRecord,
                  gv_section = ''__DATA,__objc_protolist,coalesced,no_dead_strip'',
                  gv_alignment = getPointerAlignment IGM1,
                  gv_visibility = HiddenVisibility\<rparr> IGM1;
               (protocolRef, IGM3) = newGlobalVariable
                 \<lparr>gv_name = [CHR 0x01] @ ''l_OBJC_PROTOCOL_REFERENCE_$_'' @ getObjCProtocolName proto,
                  gv_isConstant = False,
                  gv_linkage = WeakAnyLinkage,
                  gv_initializer = protocolRecord,
                  gv_section = ''__DATA,__objc_protorefs,coalesced,no_dead_strip'',
                  gv_alignment = getPointerAlignment IGM2,
                  gv_visibility = HiddenVisibility\<rparr> IGM2;
               pair = \<lparr>protocolRecord = protocolRecord,
                       protocolRef = GlobalVariableAddr protocolRef\<rparr>
           in (pair,
               (case ObjCProtocols IGM3 proto of
                  Some _ \<Rightarrow> IGM3
                | None \<Rightarrow> IGM3\<lparr>ObjCProtocols := (ObjCProtocols IGM3)(proto \<mapsto> pair)\<rparr>))))"

text \<open>
  \<^verbatim>\<open>getAddrOfObjCProtocolRecord\<close> and \<^verbatim>\<open>getAddrOfObjCProtocolRef\<close> project the
  pair.
\<close>

definition getAddrOfObjCProtocolRecord ::
  "(ProtocolDecl \<Rightarrow> IRGenModule \<Rightarrow> Constant \<times> IRGenModule) \<Rightarrow> (ProtocolDecl \<Rightarrow> string) \<Rightarrow>
   ProtocolDecl \<Rightarrow> IRGenModule \<Rightarrow> Constant \<times> IRGenModule" where
  "getAddrOfObjCProtocolRecord emitObjCProtocolData getObjCProtocolName proto IGM =
     (let (pair, IGM1) = getObjCProtocolGlobalVars emitObjCProtocolData getObjCProtocolName proto IGM
      in (protocolRecord pair, IGM1))"

definition getAddrOfObjCProtocolRef ::
  "(ProtocolDecl \<Rightarrow> IRGenModule \<Rightarrow> Constant \<times> IRGenModule) \<Rightarrow> (ProtocolDecl \<Rightarrow> string) \<Rightarrow>
   ProtocolDecl \<Rightarrow> IRGenModule \<Rightarrow> Constant \<times> IRGenModule" where
  "getAddrOfObjCProtocolRef emitObjCProtocolData getObjCProtocolName proto IGM =
     (let (pair, IGM1) = getObjCProtocolGlobalVars emitObjCProtocolData getObjCProtocolName proto IGM
      in (protocolRef pair, IGM1))"

subsection \<open>Message sends\<close>

datatype ObjCMessageKind = Normal | Peer | Super

text \<open>
  The six entry points of the runtime, named after the getters of the module that return
  them: \<^verbatim>\<open>objc_msgSend\<close>, \<^verbatim>\<open>objc_msgSend_stret\<close>, \<^verbatim>\<open>objc_msgSendSuper\<close>,
  \<^verbatim>\<open>objc_msgSendSuper_stret\<close>, \<^verbatim>\<open>objc_msgSendSuper2\<close> and
  \<^verbatim>\<open>objc_msgSendSuper2_stret\<close>.
\<close>

datatype Messenger =
    ObjCMsgSendFn
  | ObjCMsgSendStretFn
  | ObjCMsgSendSuperFn
  | ObjCMsgSendSuperStretFn
  | ObjCMsgSendSuper2Fn
  | ObjCMsgSendSuperStret2Fn

datatype llvm_Type = ObjCSuperPtrTy | ObjCPtrTy | Int8PtrTy | OtherTy nat

record llvm_FunctionType =
  getReturnType :: llvm_Type
  params :: "llvm_Type list"
  isVarArg :: bool

datatype ParameterConvention =
    Indirect_In
  | Indirect_Out
  | Indirect_Inout
  | Direct_Owned
  | Direct_Unowned
  | Direct_Guaranteed

text \<open>
  A SIL function type by an identifier and the conventions of its interface parameters.
  The lowering of function types belongs to other units: the LLVM function type of a SIL
  function type, whether its result is returned indirectly for the foreign convention
  (\<^verbatim>\<open>requiresExternalIndirectResult\<close>), and whether the schema of its result type
  requires an indirect result.
\<close>

record SILFunctionType =
  fnTypeId :: nat
  getInterfaceParameters :: "ParameterConvention list"

record Lowering =
  getFunctionType :: "SILFunctionType \<Rightarrow> llvm_FunctionType"
  requiresExternalIndirectResult :: "SILFunctionType \<Rightarrow> bool"
  requiresIndirectResult :: "SILFunctionType \<Rightarrow> bool"

text \<open>
  \<^verbatim>\<open>getMsgSendSuperTy\<close>: the receiver parameter becomes a pointer to the super
  structure. An index outside the vector of parameters trips the assertion of the vector.
\<close>

definition getMsgSendSuperTy :: "llvm_FunctionType \<Rightarrow> bool \<Rightarrow> fatal + llvm_FunctionType" where
  "getMsgSendSuperTy fnTy indirectResult =
     (let args = params fnTy;
          idx = (if indirectResult then 1 else 0 :: nat)
      in if idx < length args
         then Inr (fnTy\<lparr>params := args[idx := ObjCSuperPtrTy]\<rparr>)
         else Inl (AssertionFailed ''idx < size()''))"

record Callee =
  calleeOrigFnType :: SILFunctionType
  calleeSubstFnType :: SILFunctionType
  calleeMessenger :: Messenger
  calleeFnTy :: llvm_FunctionType

text \<open>\<^verbatim>\<open>irgen::prepareObjCMethodRootCall\<close>.\<close>

definition prepareObjCMethodRootCall ::
  "Lowering \<Rightarrow> IRGenModule \<Rightarrow> SILDeclRef \<Rightarrow> SILFunctionType \<Rightarrow> SILFunctionType \<Rightarrow>
   ObjCMessageKind \<Rightarrow> fatal + Callee" where
  "prepareObjCMethodRootCall L IGM method origFnType substFnType messageKind =
     (if \<not> (kind method = Initializer \<or> kind method = Func \<or>
             kind method = Destroyer \<or> kind method = Deallocator)
      then Inl (AssertionFailed
        ''objc method call must be to a func/initializer/getter/setter/dtor'')
      else
        (let fnTy0 = getFunctionType L origFnType;
             indirectResult = requiresExternalIndirectResult L origFnType
         in case (if messageKind \<noteq> Normal then getMsgSendSuperTy fnTy0 indirectResult
                  else Inr fnTy0) of
              Inl e \<Rightarrow> Inl e
            | Inr fnTy \<Rightarrow>
                (let messenger =
                   (if indirectResult \<and> ObjCUseStret IGM then
                      (case messageKind of
                         Normal \<Rightarrow> ObjCMsgSendStretFn
                       | Peer \<Rightarrow> ObjCMsgSendSuperStretFn
                       | Super \<Rightarrow> ObjCMsgSendSuperStret2Fn)
                    else
                      (case messageKind of
                         Normal \<Rightarrow> ObjCMsgSendFn
                       | Peer \<Rightarrow> ObjCMsgSendSuperFn
                       | Super \<Rightarrow> ObjCMsgSendSuper2Fn))
                 in Inr \<lparr>calleeOrigFnType = origFnType,
                         calleeSubstFnType = substFnType,
                         calleeMessenger = messenger,
                         calleeFnTy = fnTy\<rparr>)))"

text \<open>
  The table of the specification: whether the struct-return convention is in effect (the
  result is indirect and the target uses struct-return messengers) and the kind of the
  message select the entry point.
\<close>

definition messenger_table :: "((bool \<times> ObjCMessageKind) \<times> Messenger) list" where
  "messenger_table =
     [((False, Normal), ObjCMsgSendFn),
      ((True, Normal), ObjCMsgSendStretFn),
      ((False, Peer), ObjCMsgSendSuperFn),
      ((True, Peer), ObjCMsgSendSuperStretFn),
      ((False, Super), ObjCMsgSendSuper2Fn),
      ((True, Super), ObjCMsgSendSuperStret2Fn)]"

subsection \<open>Emitted operations\<close>











subsection \<open>Decimal text of offsets\<close>

text \<open>
  \<^verbatim>\<open>llvm::utostr\<close> and \<^verbatim>\<open>llvm::itostr\<close> of LLVM's string extras: the loop writes
  the digits from the last to the first; \<^verbatim>\<open>itostr\<close> takes its argument as a signed
  64-bit integer and puts the sign in front of the text of its magnitude.
\<close>

function utostr_loop :: "nat \<Rightarrow> string \<Rightarrow> string" where
  "utostr_loop X buf =
     (if X = 0 then buf else utostr_loop (X div 10) (char_of (48 + X mod 10) # buf))"
  by pat_completeness auto
termination
  by (relation "measure fst") auto

declare utostr_loop.simps [simp del]

definition utostr :: "nat \<Rightarrow> string" where
  "utostr X = (if X = 0 then ''0'' else utostr_loop X [])"

definition itostr :: "64 word \<Rightarrow> string" where
  "itostr X =
     (if sint X < 0 then CHR ''-'' # utostr (nat (- sint X)) else utostr (nat (sint X)))"

subsection \<open>Type encodings\<close>

text \<open>
  The translation of a type to a Clang type, \<^verbatim>\<open>GenClangType::visit\<close>, belongs to
  another unit and is the argument \<open>CTG\<close> below: \<open>None\<close> is the null type of a type that
  has no Clang counterpart.

  First loop over the elements of a tuple input in \<^verbatim>\<open>GetObjCEncodingForMethodType\<close>:
  it adds the sizes of the arguments to the offset; \<open>None\<close> is the return of the null
  constant from inside the loop.
\<close>

fun sumParmSizes ::
  "(Type \<Rightarrow> ClangType option) \<Rightarrow> ClangASTContext \<Rightarrow> Type list \<Rightarrow> 64 word \<Rightarrow> 64 word option" where
  "sumParmSizes CTG ctx [] ParmOffset = Some ParmOffset"
| "sumParmSizes CTG ctx (ArgType # rest) ParmOffset =
     (case CTG (getCanonicalType ArgType) of
        None \<Rightarrow> None
      | Some clangType \<Rightarrow>
          (let sz = getObjCEncodingTypeSize ctx clangType
           in if sz = 0 then sumParmSizes CTG ctx rest ParmOffset
              else sumParmSizes CTG ctx rest (ParmOffset + sz)))"

text \<open>Second loop: the code of each argument and its offset.\<close>

fun encodeArguments ::
  "(Type \<Rightarrow> ClangType option) \<Rightarrow> ClangASTContext \<Rightarrow> Type list \<Rightarrow> string \<Rightarrow> 64 word \<Rightarrow>
   string option" where
  "encodeArguments CTG ctx [] TypeStr ParmOffset = Some TypeStr"
| "encodeArguments CTG ctx (ArgType # rest) TypeStr ParmOffset =
     (case CTG (getCanonicalType ArgType) of
        None \<Rightarrow> None
      | Some PType \<Rightarrow>
          encodeArguments CTG ctx rest
            (TypeStr @ getObjCEncodingForType ctx PType @ itostr ParmOffset)
            (ParmOffset + getObjCEncodingTypeSize ctx PType))"

text \<open>
  \<^verbatim>\<open>GetObjCEncodingForMethodType\<close>. The result is the null constant or the address of
  the global string of the encoding.
\<close>

definition GetObjCEncodingForMethodType ::
  "(Type \<Rightarrow> ClangType option) \<Rightarrow> IRGenModule \<Rightarrow> AnyFunctionType \<Rightarrow> fatal + Constant" where
  "GetObjCEncodingForMethodType CTG IGM T =
     (case getClangModuleLoader IGM of
        None \<Rightarrow> Inl (AssertionFailed ''no clang module loader'')
      | Some ctx \<Rightarrow>
          (let cnull = ConstantPointerNull;
               Result = getResult T;
               Input = getInput T
           in case CTG (getCanonicalType Result) of
                None \<Rightarrow> Inr cnull
              | Some clangType \<Rightarrow>
                  (let TypeStr = getObjCEncodingForType ctx clangType;
                       PtrSize = getPointerSize IGM;
                       ParmOffset = 2 * PtrSize
                   in case getCanonicalType Input of
                        TupleType elements \<Rightarrow>
                          (case sumParmSizes CTG ctx elements ParmOffset of
                             None \<Rightarrow> Inr cnull
                           | Some frameSize \<Rightarrow>
                               (case encodeArguments CTG ctx elements
                                       (TypeStr @ itostr frameSize @ ''@0:'' @ itostr PtrSize)
                                       (2 * PtrSize) of
                                  None \<Rightarrow> Inr cnull
                                | Some s \<Rightarrow> Inr (AddrOfGlobalString s)))
                      | _ \<Rightarrow>
                          (let ArgType =
                                 (case Input of
                                    ParenType underlying \<Rightarrow> getCanonicalType underlying
                                  | _ \<Rightarrow> Input)
                           in case CTG (getCanonicalType ArgType) of
                                None \<Rightarrow> Inr cnull
                              | Some argClangType \<Rightarrow>
                                  (let sz = getObjCEncodingTypeSize ctx argClangType;
                                       frameSize = (if sz \<noteq> 0 then ParmOffset + sz else ParmOffset)
                                   in Inr (AddrOfGlobalString
                                        (TypeStr @ itostr frameSize @ ''@0:'' @ itostr PtrSize @
                                         getObjCEncodingForType ctx argClangType @
                                         itostr (2 * PtrSize))))))))"

text \<open>
  The encoding as the specification words it, over the list of the arguments with their
  codes and sizes: the code of the result, the size of the frame, the codes of receiver
  and selector, and each argument's code with its offset. \<open>argumentTypes\<close> gives the
  arguments of a function type: the elements of a tuple input, or the one input.
\<close>

definition argumentTypes :: "AnyFunctionType \<Rightarrow> Type list" where
  "argumentTypes T =
     (case getCanonicalType (getInput T) of
        TupleType elements \<Rightarrow> elements
      | t \<Rightarrow> [t])"

fun argumentOffsets :: "'a::plus \<Rightarrow> 'a list \<Rightarrow> 'a list" where
  "argumentOffsets start [] = []"
| "argumentOffsets start (s # sizes) = start # argumentOffsets (start + s) sizes"

definition frameEncoding :: "string \<Rightarrow> nat \<Rightarrow> (string \<times> nat) list \<Rightarrow> string" where
  "frameEncoding returnCode P arguments =
     returnCode @ utostr (2 * P + sum_list (map snd arguments)) @ ''@0:'' @ utostr P @
     concat (map2 (\<lambda>code offset. code @ utostr offset)
               (map fst arguments) (argumentOffsets (2 * P) (map snd arguments)))"

text \<open>
  The same layout in the arithmetic of the source, where the offsets are 64-bit values
  that wrap around and are printed as signed.
\<close>

definition frameEncoding64 :: "string \<Rightarrow> 64 word \<Rightarrow> (string \<times> 64 word) list \<Rightarrow> string" where
  "frameEncoding64 returnCode P arguments =
     returnCode @ itostr (2 * P + sum_list (map snd arguments)) @ ''@0:'' @ itostr P @
     concat (map2 (\<lambda>code offset. code @ itostr offset)
               (map fst arguments) (argumentOffsets (2 * P) (map snd arguments)))"

subsection \<open>Implementation pointers\<close>

text \<open>
  \<^verbatim>\<open>findSwiftAsObjCThunk\<close>: the function that the module holds for the reference, made
  internal and unnamed, cast to a byte pointer.
\<close>

definition findSwiftAsObjCThunk :: "IRGenModule \<Rightarrow> SILDeclRef \<Rightarrow> fatal + (Constant \<times> IRGenModule)" where
  "findSwiftAsObjCThunk IGM ref =
     (case SILFunctions IGM ref of
        None \<Rightarrow> Inl (AssertionFailed ''no IR function for swift-as-objc thunk'')
      | Some fn \<Rightarrow>
          Inr (BitCast (FunctionAddr fn),
               IGM\<lparr>functionLinkage := (functionLinkage IGM)(fn := InternalLinkage),
                   functionUnnamedAddr := (functionUnnamedAddr IGM)(fn := True)\<rparr>))"

datatype AbstractStorageDecl = PropertyDecl VarDecl | SubscriptStorage SubscriptDecl

definition asd_inProtocol :: "AbstractStorageDecl \<Rightarrow> bool" where
  "asd_inProtocol d = (case d of PropertyDecl v \<Rightarrow> var_inProtocol v | SubscriptStorage s \<Rightarrow> sub_inProtocol s)"

definition asd_isSettable :: "AbstractStorageDecl \<Rightarrow> bool" where
  "asd_isSettable d = (case d of PropertyDecl v \<Rightarrow> var_isSettable v | SubscriptStorage s \<Rightarrow> sub_isSettable s)"

definition asd_getGetter :: "AbstractStorageDecl \<Rightarrow> FuncDecl" where
  "asd_getGetter d = (case d of PropertyDecl v \<Rightarrow> var_getGetter v | SubscriptStorage s \<Rightarrow> sub_getGetter s)"

definition asd_getSetter :: "AbstractStorageDecl \<Rightarrow> FuncDecl" where
  "asd_getSetter d = (case d of PropertyDecl v \<Rightarrow> var_getSetter v | SubscriptStorage s \<Rightarrow> sub_getSetter s)"

text \<open>
  The references are built at the natural uncurry level (\<open>None\<close>) and as foreign.
  \<^verbatim>\<open>getObjCGetterPointer\<close> and \<^verbatim>\<open>getObjCSetterPointer\<close>:
\<close>

definition getObjCGetterPointer ::
  "IRGenModule \<Rightarrow> AbstractStorageDecl \<Rightarrow> fatal + (Constant \<times> IRGenModule)" where
  "getObjCGetterPointer IGM property =
     (if asd_inProtocol property then Inr (ConstantPointerNull, IGM)
      else findSwiftAsObjCThunk IGM
             \<lparr>kind = Func, getDecl = AsFuncDecl (asd_getGetter property),
              uncurryLevel = None, isForeign = True\<rparr>)"

definition getObjCSetterPointer ::
  "IRGenModule \<Rightarrow> AbstractStorageDecl \<Rightarrow> fatal + (Constant \<times> IRGenModule)" where
  "getObjCSetterPointer IGM property =
     (if asd_inProtocol property then Inr (ConstantPointerNull, IGM)
      else if \<not> asd_isSettable property then Inl (AssertionFailed ''property is not settable?!'')
      else findSwiftAsObjCThunk IGM
             \<lparr>kind = Func, getDecl = AsFuncDecl (asd_getSetter property),
              uncurryLevel = None, isForeign = True\<rparr>)"

text \<open>The three overloads of \<^verbatim>\<open>getObjCMethodPointer\<close>.\<close>

definition getObjCMethodPointer_FuncDecl ::
  "IRGenModule \<Rightarrow> FuncDecl \<Rightarrow> fatal + (Constant \<times> IRGenModule)" where
  "getObjCMethodPointer_FuncDecl IGM method =
     (if func_inProtocol method then Inr (ConstantPointerNull, IGM)
      else findSwiftAsObjCThunk IGM
             \<lparr>kind = Func, getDecl = AsFuncDecl method, uncurryLevel = None, isForeign = True\<rparr>)"

definition getObjCMethodPointer_ConstructorDecl ::
  "IRGenModule \<Rightarrow> ConstructorDecl \<Rightarrow> fatal + (Constant \<times> IRGenModule)" where
  "getObjCMethodPointer_ConstructorDecl IGM constructor =
     (if ctor_inProtocol constructor then Inr (ConstantPointerNull, IGM)
      else findSwiftAsObjCThunk IGM
             \<lparr>kind = Initializer, getDecl = AsConstructorDecl constructor,
              uncurryLevel = None, isForeign = True\<rparr>)"

definition getObjCMethodPointer_DestructorDecl ::
  "IRGenModule \<Rightarrow> DestructorDecl \<Rightarrow> fatal + (Constant \<times> IRGenModule)" where
  "getObjCMethodPointer_DestructorDecl IGM destructor =
     findSwiftAsObjCThunk IGM
       \<lparr>kind = Deallocator, getDecl = AsDestructorDecl destructor,
        uncurryLevel = None, isForeign = True\<rparr>"

subsection \<open>Descriptor parts\<close>

text \<open>
  The emitters of descriptor parts write three variables of the caller through
  references. The variables come in and go out as a record; \<open>None\<close> is a variable
  that nothing has assigned yet, whose value is indeterminate.
\<close>

record DescriptorParts =
  selectorRef :: "Constant option"
  atEncoding :: "Constant option"
  impl :: "Constant option"

datatype AbstractFunctionDecl =
    MethodDecl FuncDecl
  | InitializerDecl ConstructorDecl
  | DeinitializerDecl DestructorDecl

definition afd_asValueDecl :: "AbstractFunctionDecl \<Rightarrow> ValueDecl" where
  "afd_asValueDecl method =
     (case method of
        MethodDecl f \<Rightarrow> AsFuncDecl f
      | InitializerDecl c \<Rightarrow> AsConstructorDecl c
      | DeinitializerDecl d \<Rightarrow> AsDestructorDecl d)"

definition afd_getType :: "AbstractFunctionDecl \<Rightarrow> Type" where
  "afd_getType method =
     (case method of
        MethodDecl f \<Rightarrow> func_getType f
      | InitializerDecl c \<Rightarrow> ctor_getType c
      | DeinitializerDecl d \<Rightarrow> dtor_getType d)"

definition castTo_AnyFunctionType :: "Type \<Rightarrow> fatal + AnyFunctionType" where
  "castTo_AnyFunctionType t =
     (case getAs_AnyFunctionType t of
        None \<Rightarrow> Inl (BadCast ''AnyFunctionType'')
      | Some ft \<Rightarrow> Inr ft)"

text \<open>\<^verbatim>\<open>irgen::emitObjCMethodDescriptorParts\<close>.\<close>

definition emitObjCMethodDescriptorParts ::
  "(Type \<Rightarrow> ClangType option) \<Rightarrow> IRGenModule \<Rightarrow> AbstractFunctionDecl \<Rightarrow> DescriptorParts \<Rightarrow>
   fatal + (DescriptorParts \<times> IRGenModule)" where
  "emitObjCMethodDescriptorParts CTG IGM method parts =
     (case Selector_ValueDecl (afd_asValueDecl method) of
        Inl e \<Rightarrow> Inl e
      | Inr selector \<Rightarrow>
          (let (name, IGM1) = getAddrOfObjCMethodName selector IGM;
               parts1 = parts\<lparr>selectorRef := Some name\<rparr>
           in case castTo_AnyFunctionType (afd_getType method) of
                Inl e \<Rightarrow> Inl e
              | Inr methodType0 \<Rightarrow>
                  (case (case method of
                           DeinitializerDecl _ \<Rightarrow> Inr methodType0
                         | _ \<Rightarrow> castTo_AnyFunctionType (getResult methodType0)) of
                     Inl e \<Rightarrow> Inl e
                   | Inr methodType \<Rightarrow>
                       (case GetObjCEncodingForMethodType CTG IGM1 methodType of
                          Inl e \<Rightarrow> Inl e
                        | Inr encoding \<Rightarrow>
                            (let parts2 = parts1\<lparr>atEncoding := Some encoding\<rparr>
                             in case (case method of
                                        MethodDecl func \<Rightarrow> getObjCMethodPointer_FuncDecl IGM1 func
                                      | InitializerDecl ctor \<Rightarrow>
                                          getObjCMethodPointer_ConstructorDecl IGM1 ctor
                                      | DeinitializerDecl dtor \<Rightarrow>
                                          getObjCMethodPointer_DestructorDecl IGM1 dtor) of
                                  Inl e \<Rightarrow> Inl e
                                | Inr (pointer, IGM2) \<Rightarrow>
                                    Inr (parts2\<lparr>impl := Some pointer\<rparr>, IGM2))))))"

text \<open>\<^verbatim>\<open>irgen::emitObjCGetterDescriptorParts\<close> for a property.\<close>

definition emitObjCGetterDescriptorParts_VarDecl ::
  "(Type \<Rightarrow> ClangType option) \<Rightarrow> IRGenModule \<Rightarrow> VarDecl \<Rightarrow> DescriptorParts \<Rightarrow>
   fatal + (DescriptorParts \<times> IRGenModule)" where
  "emitObjCGetterDescriptorParts_VarDecl CTG IGM property parts =
     (let (name, IGM1) = getAddrOfObjCMethodName (var_getObjCGetterSelector property) IGM;
          parts1 = parts\<lparr>selectorRef := Some name\<rparr>
      in case getClangModuleLoader IGM1 of
           None \<Rightarrow> Inl (AssertionFailed ''no clang module loader'')
         | Some ctx \<Rightarrow>
             (case CTG (getCanonicalType (var_getType property)) of
                None \<Rightarrow> Inr (parts1\<lparr>atEncoding := Some ConstantPointerNull\<rparr>, IGM1)
              | Some clangType \<Rightarrow>
                  (let PtrSize = getPointerSize IGM1;
                       ParmOffset = 2 * PtrSize;
                       TypeStr = getObjCEncodingForType ctx clangType @ itostr ParmOffset @
                                 ''@0:'' @ itostr PtrSize;
                       parts2 = parts1\<lparr>atEncoding := Some (AddrOfGlobalString TypeStr)\<rparr>
                   in case getObjCGetterPointer IGM1 (PropertyDecl property) of
                        Inl e \<Rightarrow> Inl e
                      | Inr (pointer, IGM2) \<Rightarrow> Inr (parts2\<lparr>impl := Some pointer\<rparr>, IGM2))))"

text \<open>\<^verbatim>\<open>irgen::emitObjCGetterDescriptorParts\<close> for a subscript.\<close>

definition emitObjCGetterDescriptorParts_SubscriptDecl ::
  "IRGenModule \<Rightarrow> SubscriptDecl \<Rightarrow> DescriptorParts \<Rightarrow> fatal + (DescriptorParts \<times> IRGenModule)" where
  "emitObjCGetterDescriptorParts_SubscriptDecl IGM subscript parts =
     (let (name, IGM1) = getAddrOfObjCMethodName (sub_getObjCGetterSelector subscript) IGM;
          parts1 = parts\<lparr>selectorRef := Some name\<rparr>;
          parts2 = parts1\<lparr>atEncoding := Some ConstantPointerNull\<rparr>
      in case getObjCGetterPointer IGM1 (SubscriptStorage subscript) of
           Inl e \<Rightarrow> Inl e
         | Inr (pointer, IGM2) \<Rightarrow> Inr (parts2\<lparr>impl := Some pointer\<rparr>, IGM2))"

text \<open>\<^verbatim>\<open>irgen::emitObjCSetterDescriptorParts\<close> for a property.\<close>

definition emitObjCSetterDescriptorParts_VarDecl ::
  "(Type \<Rightarrow> ClangType option) \<Rightarrow> IRGenModule \<Rightarrow> VarDecl \<Rightarrow> DescriptorParts \<Rightarrow>
   fatal + (DescriptorParts \<times> IRGenModule)" where
  "emitObjCSetterDescriptorParts_VarDecl CTG IGM property parts =
     (if \<not> var_isSettable property then Inl (AssertionFailed ''not a settable property?!'')
      else
        (let (name, IGM1) = getAddrOfObjCMethodName (var_getObjCSetterSelector property) IGM;
             parts1 = parts\<lparr>selectorRef := Some name\<rparr>
         in case getClangModuleLoader IGM1 of
              None \<Rightarrow> Inl (AssertionFailed ''no clang module loader'')
            | Some ctx \<Rightarrow>
                (let TypeStr0 = getObjCEncodingForType ctx (VoidTy ctx);
                     PtrSize = getPointerSize IGM1;
                     ParmOffset = 2 * PtrSize
                 in case CTG (getCanonicalType (var_getType property)) of
                      None \<Rightarrow> Inr (parts1\<lparr>atEncoding := Some ConstantPointerNull\<rparr>, IGM1)
                    | Some clangType \<Rightarrow>
                        (let sz = getObjCEncodingTypeSize ctx clangType;
                             frameSize = (if sz \<noteq> 0 then ParmOffset + sz else ParmOffset);
                             TypeStr = TypeStr0 @ itostr frameSize @ ''@0:'' @ itostr PtrSize @
                                       getObjCEncodingForType ctx clangType @
                                       itostr (2 * PtrSize);
                             parts2 = parts1\<lparr>atEncoding := Some (AddrOfGlobalString TypeStr)\<rparr>
                         in case getObjCSetterPointer IGM1 (PropertyDecl property) of
                              Inl e \<Rightarrow> Inl e
                            | Inr (pointer, IGM2) \<Rightarrow>
                                Inr (parts2\<lparr>impl := Some pointer\<rparr>, IGM2)))))"

text \<open>\<^verbatim>\<open>irgen::emitObjCSetterDescriptorParts\<close> for a subscript.\<close>

definition emitObjCSetterDescriptorParts_SubscriptDecl ::
  "IRGenModule \<Rightarrow> SubscriptDecl \<Rightarrow> DescriptorParts \<Rightarrow> fatal + (DescriptorParts \<times> IRGenModule)" where
  "emitObjCSetterDescriptorParts_SubscriptDecl IGM subscript parts =
     (if \<not> sub_isSettable subscript then Inl (AssertionFailed ''not a settable subscript?!'')
      else
        (let (name, IGM1) = getAddrOfObjCMethodName (sub_getObjCSetterSelector subscript) IGM;
             parts1 = parts\<lparr>selectorRef := Some name\<rparr>;
             parts2 = parts1\<lparr>atEncoding := Some ConstantPointerNull\<rparr>
         in case getObjCSetterPointer IGM1 (SubscriptStorage subscript) of
              Inl e \<Rightarrow> Inl e
            | Inr (pointer, IGM2) \<Rightarrow> Inr (parts2\<lparr>impl := Some pointer\<rparr>, IGM2)))"

text \<open>
  The callers declare the three variables without initialising them, build the getter
  descriptor from them after the first call, and hand the same variables to the emitter
  of the setter. A descriptor is the three fields as they are read then.
\<close>

definition uninitialized :: DescriptorParts where
  "uninitialized = \<lparr>selectorRef = None, atEncoding = None, impl = None\<rparr>"

text \<open>\<^verbatim>\<open>irgen::emitObjCMethodDescriptor\<close>.\<close>

definition emitObjCMethodDescriptor ::
  "(Type \<Rightarrow> ClangType option) \<Rightarrow> IRGenModule \<Rightarrow> AbstractFunctionDecl \<Rightarrow>
   fatal + (DescriptorParts \<times> IRGenModule)" where
  "emitObjCMethodDescriptor CTG IGM method =
     emitObjCMethodDescriptorParts CTG IGM method uninitialized"

text \<open>\<^verbatim>\<open>irgen::emitObjCPropertyMethodDescriptors\<close>.\<close>

definition emitObjCPropertyMethodDescriptors ::
  "(Type \<Rightarrow> ClangType option) \<Rightarrow> IRGenModule \<Rightarrow> VarDecl \<Rightarrow>
   fatal + ((DescriptorParts \<times> DescriptorParts option) \<times> IRGenModule)" where
  "emitObjCPropertyMethodDescriptors CTG IGM property =
     (case emitObjCGetterDescriptorParts_VarDecl CTG IGM property uninitialized of
        Inl e \<Rightarrow> Inl e
      | Inr (getter, IGM1) \<Rightarrow>
          if var_isSettable property then
            (case emitObjCSetterDescriptorParts_VarDecl CTG IGM1 property getter of
               Inl e \<Rightarrow> Inl e
             | Inr (setter, IGM2) \<Rightarrow> Inr ((getter, Some setter), IGM2))
          else Inr ((getter, None), IGM1))"

text \<open>\<^verbatim>\<open>irgen::emitObjCSubscriptMethodDescriptors\<close>.\<close>

definition emitObjCSubscriptMethodDescriptors ::
  "IRGenModule \<Rightarrow> SubscriptDecl \<Rightarrow>
   fatal + ((DescriptorParts \<times> DescriptorParts option) \<times> IRGenModule)" where
  "emitObjCSubscriptMethodDescriptors IGM subscript =
     (case emitObjCGetterDescriptorParts_SubscriptDecl IGM subscript uninitialized of
        Inl e \<Rightarrow> Inl e
      | Inr (getter, IGM1) \<Rightarrow>
          if sub_isSettable subscript then
            (case emitObjCSetterDescriptorParts_SubscriptDecl IGM1 subscript getter of
               Inl e \<Rightarrow> Inl e
             | Inr (setter, IGM2) \<Rightarrow> Inr ((getter, Some setter), IGM2))
          else Inr ((getter, None), IGM1))"

subsection \<open>Which declarations get a descriptor\<close>

text \<open>
  \<^verbatim>\<open>irgen::requiresObjCMethodDescriptor(FuncDecl *)\<close>. The second test of the
  disjunction reads the result of the function type through a pointer that is null when
  the type of the method is no function type.
\<close>

fun requiresObjCMethodDescriptor_FuncDecl :: "FuncDecl \<Rightarrow> fatal + bool" where
  "requiresObjCMethodDescriptor_FuncDecl
     (FuncDecl selector isAccessor type contextType inProtocol isObjC isIBAction overridden) =
     (if isAccessor then Inr False
      else if is_PolymorphicFunctionType type then Inr False
      else
        (case getAs_AnyFunctionType type of
           None \<Rightarrow> Inl (NullDereference ''getAs<AnyFunctionType>()'')
         | Some ft \<Rightarrow>
             if is_PolymorphicFunctionType (getResult ft) \<or> is_BoundGenericType contextType
             then Inr False
             else if isObjC \<or> isIBAction then Inr True
             else
               (case overridden of
                  Some override \<Rightarrow> requiresObjCMethodDescriptor_FuncDecl override
                | None \<Rightarrow> Inr False)))"

text \<open>\<^verbatim>\<open>irgen::requiresObjCMethodDescriptor(ConstructorDecl *)\<close>.\<close>

fun requiresObjCMethodDescriptor_ConstructorDecl :: "ConstructorDecl \<Rightarrow> fatal + bool" where
  "requiresObjCMethodDescriptor_ConstructorDecl
     (ConstructorDecl selector type contextType inProtocol isObjC overridden) =
     (if is_PolymorphicFunctionType type then Inr False
      else
        (case getAs_AnyFunctionType type of
           None \<Rightarrow> Inl (NullDereference ''getAs<AnyFunctionType>()'')
         | Some ft \<Rightarrow>
             if is_PolymorphicFunctionType (getResult ft) \<or> is_BoundGenericType contextType
             then Inr False
             else Inr isObjC))"

text \<open>\<^verbatim>\<open>irgen::requiresObjCPropertyDescriptor\<close>.\<close>

fun requiresObjCPropertyDescriptor :: "VarDecl \<Rightarrow> bool" where
  "requiresObjCPropertyDescriptor
     (VarDecl getterSelector setterSelector type isSettable getter setter contextType
        inProtocol isObjC overridden) =
     (if is_BoundGenericType contextType then False
      else
        (case overridden of
           Some override \<Rightarrow> requiresObjCPropertyDescriptor override
         | None \<Rightarrow>
             if \<not> isObjC then False
             else
               (case getAs_AnyFunctionType type of
                  Some ft \<Rightarrow> isBlock ft
                | None \<Rightarrow> True)))"

text \<open>\<^verbatim>\<open>irgen::requiresObjCSubscriptDescriptor\<close>.\<close>

fun requiresObjCSubscriptDescriptor :: "SubscriptDecl \<Rightarrow> bool" where
  "requiresObjCSubscriptDescriptor
     (SubscriptDecl getterSelector setterSelector elementType isSettable getter setter
        contextType inProtocol isObjC overridden) =
     (if is_BoundGenericType contextType then False
      else
        (case overridden of
           Some override \<Rightarrow> requiresObjCSubscriptDescriptor override
         | None \<Rightarrow>
             if \<not> isObjC then False
             else
               (case getAs_AnyFunctionType elementType of
                  Some ft \<Rightarrow> isBlock ft
                | None \<Rightarrow> True)))"

subsection \<open>A concrete module and concrete declarations\<close>

text \<open>
  Inputs on which the definitions are run: a Clang context that knows \<open>void\<close>,
  \<open>int\<close>, \<open>id\<close> and \<open>double\<close> with the codes \<open>v\<close>, \<open>i\<close>, \<open>@\<close> and \<open>d\<close>
  and the sizes 0, 4, 8 and 8; a translation of types that maps the empty tuple to
  \<open>void\<close> and the nominal types 1, 2 and 3 to the other three, and has no Clang type for
  anything else; and an empty module for a target with pointers of 8 bytes.
\<close>

definition exampleContext :: ClangASTContext where
  "exampleContext =
     \<lparr>getObjCEncodingForType =
        (\<lambda>t. if t = 0 then ''v'' else if t = 1 then ''i'' else if t = 2 then ''@'' else ''d''),
      getObjCEncodingTypeSize = (\<lambda>t. if t = 0 then 0 else if t = 1 then 4 else 8),
      VoidTy = 0\<rparr>"

fun exampleCTG :: "Type \<Rightarrow> ClangType option" where
  "exampleCTG (TupleType []) = Some 0"
| "exampleCTG (NominalType n) = (if 1 \<le> n \<and> n \<le> 3 then Some n else None)"
| "exampleCTG _ = None"

definition exampleModule :: IRGenModule where
  "exampleModule =
     \<lparr>Module = [],
      ObjCMethodNames = (\<lambda>_. None),
      ObjCSelectorRefs = (\<lambda>_. None),
      ObjCProtocols = (\<lambda>_. None),
      LLVMUsed = [],
      SILFunctions =
        (\<lambda>ref. if isForeign ref
                then Some (case kind ref of Func \<Rightarrow> 0 | Initializer \<Rightarrow> 1 | _ \<Rightarrow> 2)
                else None),
      functionLinkage = (\<lambda>_. ExternalLinkage),
      functionUnnamedAddr = (\<lambda>_. False),
      getPointerSize = 8,
      getPointerAlignment = 8,
      ObjCUseStret = True,
      getClangModuleLoader = Some exampleContext\<rparr>"

text \<open>
  A lowering that gives every method the receiver and the selector as parameters and
  returns the function type 1 indirectly; an emitter of protocol records that adds one
  global to the module; and the name of a protocol.
\<close>

definition exampleLowering :: Lowering where
  "exampleLowering =
     \<lparr>getFunctionType =
        (\<lambda>t. \<lparr>getReturnType = ObjCPtrTy, params = [ObjCPtrTy, Int8PtrTy], isVarArg = False\<rparr>),
      requiresExternalIndirectResult = (\<lambda>t. fnTypeId t = 1),
      requiresIndirectResult = (\<lambda>t. fnTypeId t = 1)\<rparr>"



text \<open>
  Declarations of a class (the nominal type 10): a method \<open>reload\<close>, marked for
  Objective-C, an override of it in a subclass (the nominal type 11) that is not marked,
  and an override of it in a generic subclass (the bound generic type 12); an initialiser
  marked for Objective-C and an override of it that is not; a settable property
  \<open>delegate\<close> of the nominal type 9, which has no Clang type, with its accessors and an
  override; and a subscript with an override.
\<close>

definition curriedMethodType :: "Type \<Rightarrow> Type \<Rightarrow> Type" where
  "curriedMethodType input result =
     FunctionType (NominalType 10) (FunctionType input result False) False"

definition exampleMethod :: FuncDecl where
  "exampleMethod =
     FuncDecl ''reload'' False (curriedMethodType (TupleType []) (TupleType [])) (NominalType 10)
       False True False None"

definition exampleOverride :: FuncDecl where
  "exampleOverride =
     FuncDecl ''reload'' False (curriedMethodType (TupleType []) (TupleType [])) (NominalType 11)
       False False False (Some exampleMethod)"

definition exampleGenericOverride :: FuncDecl where
  "exampleGenericOverride =
     FuncDecl ''reload'' False (curriedMethodType (TupleType []) (TupleType []))
       (BoundGenericType 12) False True False (Some exampleMethod)"

definition exampleInit :: ConstructorDecl where
  "exampleInit =
     ConstructorDecl ''init'' (curriedMethodType (TupleType []) (NominalType 10)) (NominalType 10)
       False True None"

definition exampleInitOverride :: ConstructorDecl where
  "exampleInitOverride =
     ConstructorDecl ''init'' (curriedMethodType (TupleType []) (NominalType 11)) (NominalType 11)
       False False (Some exampleInit)"

definition exampleGetter :: FuncDecl where
  "exampleGetter =
     FuncDecl ''delegate'' True (curriedMethodType (TupleType []) (NominalType 9)) (NominalType 10)
       False True False None"

definition exampleSetter :: FuncDecl where
  "exampleSetter =
     FuncDecl ''setDelegate:'' True (curriedMethodType (NominalType 9) (TupleType [])) (NominalType 10)
       False True False None"

definition exampleProperty :: VarDecl where
  "exampleProperty =
     VarDecl ''delegate'' ''setDelegate:'' (NominalType 9) True exampleGetter exampleSetter
       (NominalType 10) False True None"

definition examplePropertyOverride :: VarDecl where
  "examplePropertyOverride =
     VarDecl ''delegate'' ''setDelegate:'' (NominalType 9) True exampleGetter exampleSetter
       (NominalType 11) False False (Some exampleProperty)"

definition exampleSubscript :: SubscriptDecl where
  "exampleSubscript =
     SubscriptDecl ''objectAtIndexedSubscript:'' ''setObject:atIndexedSubscript:''
       (NominalType 2) True exampleGetter exampleSetter (NominalType 10) False True None"

definition exampleSubscriptOverride :: SubscriptDecl where
  "exampleSubscriptOverride =
     SubscriptDecl ''objectAtIndexedSubscript:'' ''setObject:atIndexedSubscript:''
       (NominalType 2) True exampleGetter exampleSetter (NominalType 11) False False
       (Some exampleSubscript)"

definition exampleInitRef :: SILDeclRef where
  "exampleInitRef =
     \<lparr>kind = Initializer, getDecl = AsConstructorDecl exampleInit,
      uncurryLevel = None, isForeign = True\<rparr>"

section \<open>Selectors\<close>

lemma skipUnderscores_dropWhile: "skipUnderscores s = dropWhile (\<lambda>c. c = CHR ''_'') s"
  by (induction s) auto

lemma skipUnderscores_replicate:
  "skipUnderscores (replicate n (CHR ''_'') @ s) = skipUnderscores s"
  by (induction n) auto

lemma hasPrefix_prefix_match: "hasPrefix text pre = prefix_match text pre"
proof (cases "prefix pre text")
  case True
  then obtain rest where t: "text = pre @ rest"
    by (auto simp: prefix_def)
  show ?thesis
    by (cases rest) (simp_all add: t hasPrefix_def prefix_match_def startswith_def)
next
  case False
  then have "take (length pre) text \<noteq> pre"
    by (metis take_is_prefix)
  with False show ?thesis
    by (simp add: hasPrefix_def prefix_match_def startswith_def)
qed

lemma getFamily_table: "getFamily str = family_by_table (dropWhile (\<lambda>c. c = CHR ''_'') str)"
  by (simp add: getFamily_def family_by_table_def family_table_def
      hasPrefix_prefix_match skipUnderscores_dropWhile Let_def)

lemma getFamily_underscores: "getFamily (replicate n (CHR ''_'') @ str) = getFamily str"
  by (simp add: getFamily_def skipUnderscores_replicate)

lemma getFamily_examples:
  "getFamily ''allocX'' = Alloc \<and> getFamily ''copyThing'' = Copy \<and> getFamily ''new'' = New \<and>
   getFamily ''_initFoo'' = Init \<and> getFamily ''allocate'' = FamilyNone"
  by (simp add: getFamily_def hasPrefix_def startswith_def islower_def)

text \<open>
  Claim C2. The family of a selector text is found by dropping every leading underscore
  and matching the rest against the table of family prefixes, case-sensitively, where a
  prefix matches only if the text ends there or goes on with a character that is not
  lowercase. Any number of leading underscores leaves the family unchanged, and
  \<open>allocX\<close>, \<open>copyThing\<close>, \<open>new\<close> and \<open>_initFoo\<close> fall into the families Alloc, Copy,
  New and Init, while \<open>allocate\<close>, which goes on in lowercase, falls into none.
\<close>

theorem selector_family_classification:
  "getFamily str = family_by_table (dropWhile (\<lambda>c. c = CHR ''_'') str) \<and>
   getFamily (replicate n (CHR ''_'') @ str) = getFamily str \<and>
   getFamily ''allocX'' = Alloc \<and> getFamily ''copyThing'' = Copy \<and>
   getFamily ''new'' = New \<and> getFamily ''_initFoo'' = Init \<and>
   getFamily ''allocate'' = FamilyNone"
  using getFamily_table [of str] getFamily_underscores [of n str] getFamily_examples
  by (simp only: simp_thms)

text \<open>
  Claim C9. Building a selector from a reference of a kind that has no selector (the
  allocator entry point, a default-argument generator, an enum element, a global
  accessor) ends in the fatal path \<^verbatim>\<open>llvm_unreachable\<close> and yields no selector text.
\<close>

theorem selector_without_text_is_fatal:
  assumes "kind ref \<in> {Allocator, DefaultArgGenerator, EnumElement, GlobalAccessor}"
  shows "Selector_SILDeclRef ref = Inl (Unreachable ''Method does not have a selector'')"
  using assms by (auto simp: Selector_SILDeclRef_def)

theorem selector_without_text_is_fatal_witness:
  "Selector_SILDeclRef
     \<lparr>kind = EnumElement, getDecl = AsClassDecl 0, uncurryLevel = None, isForeign = False\<rparr> =
   Inl (Unreachable ''Method does not have a selector'')"
  by (rule selector_without_text_is_fatal) simp

section \<open>The symbol cache\<close>









lemma selectorRef_cached:
  "ObjCSelectorRefs (snd (getAddrOfObjCSelectorRef selector IGM)) selector =
   Some (fst (getAddrOfObjCSelectorRef selector IGM))"
proof (cases "ObjCSelectorRefs IGM selector")
  case None
  obtain init IGM1 where m: "getAddrOfObjCMethodName selector IGM = (init, IGM1)"
    by (cases "getAddrOfObjCMethodName selector IGM")
  show ?thesis
    using None m
    by (simp add: getAddrOfObjCSelectorRef_def newGlobalVariable_def Let_def)
next
  case (Some entry)
  then show ?thesis
    by (simp add: getAddrOfObjCSelectorRef_def)
qed



section \<open>Message sends\<close>

text \<open>
  Claim C5. Preparing a message send picks the entry point by the fixed table of six:
  the plain, peer and super sends, each in its struct-return variant when the result is
  indirect and the target uses struct-return messengers. The preparation returns a callee
  whenever the reference is of a kind that the assertion admits and, for a peer or super
  send, the function type has the parameter that becomes the super structure.
\<close>

theorem messenger_selection:
  assumes "kind method \<in> {Initializer, Func, Destroyer, Deallocator}"
    and "messageKind \<noteq> Normal \<longrightarrow>
           (if requiresExternalIndirectResult L origFnType then 1 else 0)
             < length (params (getFunctionType L origFnType))"
  shows "\<exists>callee.
     prepareObjCMethodRootCall L IGM method origFnType substFnType messageKind = Inr callee \<and>
     map_of messenger_table
       (requiresExternalIndirectResult L origFnType \<and> ObjCUseStret IGM, messageKind) =
       Some (calleeMessenger callee)"
  using assms
  by (cases messageKind)
     (auto simp: prepareObjCMethodRootCall_def getMsgSendSuperTy_def messenger_table_def Let_def)

theorem messenger_selection_witness:
  "\<exists>callee.
     prepareObjCMethodRootCall exampleLowering exampleModule exampleInitRef
       \<lparr>fnTypeId = 1, getInterfaceParameters = [Direct_Owned]\<rparr>
       \<lparr>fnTypeId = 1, getInterfaceParameters = [Direct_Owned]\<rparr> Super = Inr callee \<and>
     Some ObjCMsgSendSuperStret2Fn = Some (calleeMessenger callee)"
proof -
  have k: "kind exampleInitRef \<in> {Initializer, Func, Destroyer, Deallocator}"
    by (simp add: exampleInitRef_def)
  have p: "Super \<noteq> Normal \<longrightarrow>
      (if requiresExternalIndirectResult exampleLowering
            \<lparr>fnTypeId = 1, getInterfaceParameters = [Direct_Owned]\<rparr> then 1 else 0)
        < length (params (getFunctionType exampleLowering
            \<lparr>fnTypeId = 1, getInterfaceParameters = [Direct_Owned]\<rparr>))"
    by (simp add: exampleLowering_def)
  show ?thesis
    using messenger_selection [OF k p, of exampleModule
        "\<lparr>fnTypeId = 1, getInterfaceParameters = [Direct_Owned]\<rparr>"]
    by (simp add: messenger_table_def exampleLowering_def exampleModule_def)
qed

section \<open>Partial application\<close>







section \<open>Type encodings of methods\<close>

lemma getCanonicalType_idem: "getCanonicalType (getCanonicalType t) = getCanonicalType t"
  by (induction t) (simp_all cong: map_cong)

lemma canonical_elements:
  assumes "getCanonicalType t = TupleType elements"
  shows "map getCanonicalType elements = elements"
  using getCanonicalType_idem [of t] by (simp add: assms)

lemma sint_small:
  fixes w :: "64 word"
  assumes "unat w < 2 ^ 63"
  shows "sint w = int (unat w)"
proof -
  have "int (unat w) < int (2 ^ 63)"
    using assms by (simp only: of_nat_less_iff)
  then have "uint w < 2 ^ 63"
    by simp
  moreover have "- (2 ^ 63) \<le> uint w"
    by (rule order_trans [of _ 0]) simp_all
  ultimately have "signed_take_bit 63 (uint w) = uint w"
    by (rule signed_take_bit_int_eq_self [rotated])
  then show ?thesis
    by (simp add: sint_uint)
qed

lemma itostr_unat:
  assumes "unat w < 2 ^ 63"
  shows "itostr w = utostr (unat w)"
  by (simp add: itostr_def sint_small [OF assms])

lemma unat_add_no_overflow:
  fixes x y :: "64 word"
  assumes "unat x + unat y < 2 ^ 64"
  shows "unat (x + y) = unat x + unat y"
  using assms unat_add_lem [of x y] by simp

lemma sumParmSizes_encodable:
  assumes "map (\<lambda>a. CTG (getCanonicalType a)) args = map Some cts"
    and "unat off + sum_list (map (\<lambda>c. unat (getObjCEncodingTypeSize ctx c)) cts) < 2 ^ 64"
  shows "\<exists>w. sumParmSizes CTG ctx args off = Some w \<and>
             unat w = unat off + sum_list (map (\<lambda>c. unat (getObjCEncodingTypeSize ctx c)) cts)"
  using assms
proof (induction args arbitrary: cts off)
  case Nil
  then show ?case by simp
next
  case (Cons a args)
  then obtain c cs where cts: "cts = c # cs" by (cases cts) auto
  with Cons.prems have a: "CTG (getCanonicalType a) = Some c"
    and rest: "map (\<lambda>a. CTG (getCanonicalType a)) args = map Some cs"
    by simp_all
  define sz where "sz = getObjCEncodingTypeSize ctx c"
  define S where "S = sum_list (map (\<lambda>c. unat (getObjCEncodingTypeSize ctx c)) cs)"
  have bound: "unat off + (unat sz + S) < 2 ^ 64"
    using Cons.prems(2) by (simp add: cts sz_def S_def)
  then have step: "unat (off + sz) = unat off + unat sz"
    by (intro unat_add_no_overflow) simp
  have unfold: "sumParmSizes CTG ctx (a # args) off =
      (if sz = 0 then sumParmSizes CTG ctx args off else sumParmSizes CTG ctx args (off + sz))"
    by (simp add: a sz_def)
  have goal: "sum_list (map (\<lambda>c. unat (getObjCEncodingTypeSize ctx c)) cts) = unat sz + S"
    by (simp add: cts sz_def S_def)
  show ?case
  proof (cases "sz = 0")
    case True
    have "unat off + S < 2 ^ 64" using bound by simp
    from Cons.IH [OF rest, of off] this obtain w where
      "sumParmSizes CTG ctx args off = Some w" "unat w = unat off + S"
      by (auto simp: S_def)
    then show ?thesis
      unfolding unfold goal using True by simp
  next
    case False
    have "unat (off + sz) + S < 2 ^ 64" using bound step by simp
    from Cons.IH [OF rest, of "off + sz"] this obtain w where
      "sumParmSizes CTG ctx args (off + sz) = Some w" "unat w = unat (off + sz) + S"
      by (auto simp: S_def)
    then show ?thesis
      unfolding unfold goal using False step by simp
  qed
qed

lemma sumParmSizes_None_iff:
  "sumParmSizes CTG ctx args off = None \<longleftrightarrow> (\<exists>a\<in>set args. CTG (getCanonicalType a) = None)"
  by (induction args arbitrary: off) (auto simp: Let_def split: option.splits)

lemma encodeArguments_encodable:
  assumes "map (\<lambda>a. CTG (getCanonicalType a)) args = map Some cts"
    and "unat off + sum_list (map (\<lambda>c. unat (getObjCEncodingTypeSize ctx c)) cts) < 2 ^ 63"
  shows "encodeArguments CTG ctx args TypeStr off =
         Some (TypeStr @
           concat (map2 (\<lambda>code offset. code @ utostr offset)
             (map (getObjCEncodingForType ctx) cts)
             (argumentOffsets (unat off) (map (\<lambda>c. unat (getObjCEncodingTypeSize ctx c)) cts))))"
  using assms
proof (induction args arbitrary: cts off TypeStr)
  case Nil
  then show ?case by simp
next
  case (Cons a args)
  then obtain c cs where cts: "cts = c # cs" by (cases cts) auto
  with Cons.prems have a: "CTG (getCanonicalType a) = Some c"
    and rest: "map (\<lambda>a. CTG (getCanonicalType a)) args = map Some cs"
    by simp_all
  define sz where "sz = getObjCEncodingTypeSize ctx c"
  define S where "S = sum_list (map (\<lambda>c. unat (getObjCEncodingTypeSize ctx c)) cs)"
  have bound: "unat off + (unat sz + S) < 2 ^ 63"
    using Cons.prems(2) by (simp add: cts sz_def S_def)
  then have small: "unat off < 2 ^ 63"
    by simp
  have "unat off + unat sz < 2 ^ 63"
    using bound by simp
  also have "(2::nat) ^ 63 < 2 ^ 64"
    by simp
  finally have step: "unat (off + sz) = unat off + unat sz"
    by (rule unat_add_no_overflow)
  have next_bound: "unat (off + sz) + S < 2 ^ 63"
    using bound step by simp
  have unfold: "encodeArguments CTG ctx (a # args) TypeStr off =
      encodeArguments CTG ctx args
        (TypeStr @ getObjCEncodingForType ctx c @ utostr (unat off)) (off + sz)"
    by (simp add: a sz_def itostr_unat [OF small])
  have "encodeArguments CTG ctx args
        (TypeStr @ getObjCEncodingForType ctx c @ utostr (unat off)) (off + sz) =
      Some ((TypeStr @ getObjCEncodingForType ctx c @ utostr (unat off)) @
           concat (map2 (\<lambda>code offset. code @ utostr offset)
             (map (getObjCEncodingForType ctx) cs)
             (argumentOffsets (unat (off + sz))
                (map (\<lambda>c. unat (getObjCEncodingTypeSize ctx c)) cs))))"
    using next_bound by (intro Cons.IH [OF rest]) (simp add: S_def)
  then show ?case
    unfolding unfold by (simp add: cts step [unfolded sz_def] sz_def)
qed

lemma unat_twice:
  fixes P :: "64 word"
  assumes "2 * unat P < 2 ^ 64"
  shows "unat (2 * P) = 2 * unat P"
proof -
  have "unat P + unat P < 2 ^ 64"
    using assms by simp
  then have "unat (P + P) = unat P + unat P"
    by (rule unat_add_no_overflow)
  then show ?thesis
    unfolding mult_2 .
qed

lemma single_argument_type:
  "getCanonicalType (case Input of ParenType underlying \<Rightarrow> getCanonicalType underlying | _ \<Rightarrow> Input)
   = getCanonicalType Input"
  by (cases Input) (simp_all add: getCanonicalType_idem)

lemma tuple_path:
  assumes loader: "getClangModuleLoader IGM = Some ctx"
    and result: "CTG (getCanonicalType (getResult T)) = Some r"
    and tuple: "getCanonicalType (getInput T) = TupleType elements"
  shows "GetObjCEncodingForMethodType CTG IGM T =
     (case sumParmSizes CTG ctx elements (2 * getPointerSize IGM) of
        None \<Rightarrow> Inr ConstantPointerNull
      | Some frameSize \<Rightarrow>
          (case encodeArguments CTG ctx elements
                  (getObjCEncodingForType ctx r @ itostr frameSize @ ''@0:'' @
                   itostr (getPointerSize IGM))
                  (2 * getPointerSize IGM) of
             None \<Rightarrow> Inr ConstantPointerNull
           | Some s \<Rightarrow> Inr (AddrOfGlobalString s)))"
  by (simp add: GetObjCEncodingForMethodType_def loader result tuple Let_def)

lemma single_path:
  assumes loader: "getClangModuleLoader IGM = Some ctx"
    and result: "CTG (getCanonicalType (getResult T)) = Some r"
    and single: "\<forall>elements. getCanonicalType (getInput T) \<noteq> TupleType elements"
  shows "GetObjCEncodingForMethodType CTG IGM T =
     (case CTG (getCanonicalType (getInput T)) of
        None \<Rightarrow> Inr ConstantPointerNull
      | Some c \<Rightarrow>
          Inr (AddrOfGlobalString
            (getObjCEncodingForType ctx r @
             itostr (if getObjCEncodingTypeSize ctx c \<noteq> 0
                     then 2 * getPointerSize IGM + getObjCEncodingTypeSize ctx c
                     else 2 * getPointerSize IGM) @
             ''@0:'' @ itostr (getPointerSize IGM) @
             getObjCEncodingForType ctx c @ itostr (2 * getPointerSize IGM))))"
  using single
  by (cases "getCanonicalType (getInput T)")
     (simp_all add: GetObjCEncodingForMethodType_def loader result Let_def single_argument_type
        split: option.splits)

lemma argumentTypes_tuple:
  "getCanonicalType (getInput T) = TupleType elements \<Longrightarrow> argumentTypes T = elements"
  by (simp add: argumentTypes_def)

lemma argumentTypes_single:
  "\<forall>elements. getCanonicalType (getInput T) \<noteq> TupleType elements \<Longrightarrow>
   argumentTypes T = [getCanonicalType (getInput T)]"
  by (cases "getCanonicalType (getInput T)") (simp_all add: argumentTypes_def)

lemma encoding_general:
  assumes loader: "getClangModuleLoader IGM = Some ctx"
    and result: "CTG (getCanonicalType (getResult T)) = Some r"
    and arguments: "map CTG (argumentTypes T) = map Some cts"
    and range: "2 * unat (getPointerSize IGM) +
                sum_list (map (\<lambda>c. unat (getObjCEncodingTypeSize ctx c)) cts) < 2 ^ 63"
  shows "GetObjCEncodingForMethodType CTG IGM T =
         Inr (AddrOfGlobalString
           (frameEncoding (getObjCEncodingForType ctx r) (unat (getPointerSize IGM))
              (map (\<lambda>c. (getObjCEncodingForType ctx c, unat (getObjCEncodingTypeSize ctx c))) cts)))"
proof -
  define P where "P = getPointerSize IGM"
  define S where "S = sum_list (map (\<lambda>c. unat (getObjCEncodingTypeSize ctx c)) cts)"
  have bound: "2 * unat P + S < 2 ^ 63"
    using range by (simp add: P_def S_def)
  have "2 * unat P < 2 ^ 63" using bound by simp
  also have "(2::nat) ^ 63 < 2 ^ 64" by simp
  finally have twoP: "unat (2 * P) = 2 * unat P"
    by (rule unat_twice)
  have P_small: "unat P < 2 ^ 63" using bound by simp
  have twoP_small: "unat (2 * P) < 2 ^ 63" using bound twoP by simp
  show ?thesis
  proof (cases "\<exists>elements. getCanonicalType (getInput T) = TupleType elements")
    case True
    then obtain elements where tuple: "getCanonicalType (getInput T) = TupleType elements"
      by blast
    have canon: "map (\<lambda>a. CTG (getCanonicalType a)) elements = map Some cts"
    proof -
      have "map (\<lambda>a. CTG (getCanonicalType a)) elements = map CTG (map getCanonicalType elements)"
        by simp
      also have "\<dots> = map CTG elements"
        by (simp only: canonical_elements [OF tuple])
      finally have "map (\<lambda>a. CTG (getCanonicalType a)) elements = map CTG elements" .
      also have "map CTG elements = map Some cts"
        using arguments unfolding argumentTypes_tuple [OF tuple] .
      finally show ?thesis .
    qed
    have "unat (2 * P) + S < 2 ^ 63" using bound twoP by simp
    also have "(2::nat) ^ 63 < 2 ^ 64" by simp
    finally have "unat (2 * P) + S < 2 ^ 64" .
    from sumParmSizes_encodable [OF canon, of "2 * P" ctx] this
    obtain w where w: "sumParmSizes CTG ctx elements (2 * P) = Some w"
      and unat_w: "unat w = 2 * unat P + S"
      by (auto simp: S_def twoP)
    have w_small: "unat w < 2 ^ 63" using bound unat_w by simp
    have enc: "encodeArguments CTG ctx elements pre (2 * P) =
      Some (pre @
        concat (map2 (\<lambda>code offset. code @ utostr offset)
          (map (getObjCEncodingForType ctx) cts)
          (argumentOffsets (2 * unat P) (map (\<lambda>c. unat (getObjCEncodingTypeSize ctx c)) cts))))"
      for pre
      using bound twoP encodeArguments_encodable [OF canon, of "2 * P" ctx pre]
      by (simp add: S_def)
    show ?thesis
      unfolding tuple_path [where CTG = CTG, OF loader result tuple] P_def [symmetric]
      by (simp add: w enc frameEncoding_def itostr_unat [OF w_small] itostr_unat [OF P_small]
            unat_w twoP S_def comp_def)
  next
    case False
    then have single: "\<forall>elements. getCanonicalType (getInput T) \<noteq> TupleType elements"
      by blast
    from arguments obtain c where cts: "cts = [c]"
      and c: "CTG (getCanonicalType (getInput T)) = Some c"
      by (auto simp: argumentTypes_single [OF single])
    define sz where "sz = getObjCEncodingTypeSize ctx c"
    have S: "S = unat sz" by (simp add: S_def cts sz_def)
    have "unat (2 * P) + unat sz < 2 ^ 63" using bound twoP S by simp
    also have "(2::nat) ^ 63 < 2 ^ 64" by simp
    finally have add: "unat (2 * P + sz) = 2 * unat P + unat sz"
      using unat_add_no_overflow [of "2 * P" sz] twoP by simp
    have sum_small: "unat (2 * P + sz) < 2 ^ 63"
      using bound S unfolding add by simp
    have frame: "itostr (if sz \<noteq> 0 then 2 * P + sz else 2 * P) = utostr (2 * unat P + unat sz)"
    proof (cases "sz = 0")
      case True
      then show ?thesis
        by (simp add: itostr_unat [OF twoP_small] twoP)
    next
      case False
      then show ?thesis
        by (simp add: itostr_unat [OF sum_small] add)
    qed
    have "GetObjCEncodingForMethodType CTG IGM T =
      Inr (AddrOfGlobalString
        (getObjCEncodingForType ctx r @
         itostr (if sz \<noteq> 0 then 2 * P + sz else 2 * P) @
         ''@0:'' @ itostr P @ getObjCEncodingForType ctx c @ itostr (2 * P)))"
      unfolding single_path [where CTG = CTG, OF loader result single] P_def sz_def
      by (simp add: c)
    then have "GetObjCEncodingForMethodType CTG IGM T =
      Inr (AddrOfGlobalString
        (getObjCEncodingForType ctx r @ utostr (2 * unat P + unat sz) @
         ''@0:'' @ utostr (unat P) @ getObjCEncodingForType ctx c @ utostr (2 * unat P)))"
      unfolding frame itostr_unat [OF P_small] itostr_unat [OF twoP_small] twoP .
    then show ?thesis
      unfolding P_def sz_def by (simp add: frameEncoding_def cts)
  qed
qed

lemma sumParmSizes_words:
  assumes "map (\<lambda>a. CTG (getCanonicalType a)) args = map Some cts"
  shows "sumParmSizes CTG ctx args off =
         Some (off + sum_list (map (getObjCEncodingTypeSize ctx) cts))"
  using assms
proof (induction args arbitrary: cts off)
  case Nil
  then show ?case by simp
next
  case (Cons a args)
  then obtain c cs where cts: "cts = c # cs" by (cases cts) auto
  with Cons.prems have a: "CTG (getCanonicalType a) = Some c"
    and rest: "map (\<lambda>a. CTG (getCanonicalType a)) args = map Some cs"
    by simp_all
  show ?case
    by (simp add: a cts Cons.IH [OF rest] Let_def add.assoc)
qed

lemma encodeArguments_words:
  assumes "map (\<lambda>a. CTG (getCanonicalType a)) args = map Some cts"
  shows "encodeArguments CTG ctx args TypeStr off =
         Some (TypeStr @
           concat (map2 (\<lambda>code offset. code @ itostr offset)
             (map (getObjCEncodingForType ctx) cts)
             (argumentOffsets off (map (getObjCEncodingTypeSize ctx) cts))))"
  using assms
proof (induction args arbitrary: cts off TypeStr)
  case Nil
  then show ?case by simp
next
  case (Cons a args)
  then obtain c cs where cts: "cts = c # cs" by (cases cts) auto
  with Cons.prems have a: "CTG (getCanonicalType a) = Some c"
    and rest: "map (\<lambda>a. CTG (getCanonicalType a)) args = map Some cs"
    by simp_all
  show ?case
    by (simp add: a cts Cons.IH [OF rest])
qed

lemma all_Some_map:
  assumes "\<forall>a\<in>set xs. f a \<noteq> None"
  shows "\<exists>ys. map f xs = map Some ys"
  using assms
proof (induction xs)
  case Nil
  then show ?case by simp
next
  case (Cons x xs)
  then obtain ys where "map f xs = map Some ys" by auto
  moreover from Cons.prems obtain y where "f x = Some y" by auto
  ultimately have "map f (x # xs) = map Some (y # ys)" by simp
  then show ?case by blast
qed

lemma encoding_words:
  assumes loader: "getClangModuleLoader IGM = Some ctx"
    and result: "CTG (getCanonicalType (getResult T)) = Some r"
    and arguments: "map CTG (argumentTypes T) = map Some cts"
  shows "GetObjCEncodingForMethodType CTG IGM T =
         Inr (AddrOfGlobalString
           (frameEncoding64 (getObjCEncodingForType ctx r) (getPointerSize IGM)
              (map (\<lambda>c. (getObjCEncodingForType ctx c, getObjCEncodingTypeSize ctx c)) cts)))"
proof (cases "\<exists>elements. getCanonicalType (getInput T) = TupleType elements")
  case True
  then obtain elements where tuple: "getCanonicalType (getInput T) = TupleType elements"
    by blast
  have "map (\<lambda>a. CTG (getCanonicalType a)) elements = map CTG (map getCanonicalType elements)"
    by simp
  also have "\<dots> = map CTG elements"
    by (simp only: canonical_elements [OF tuple])
  finally have "map (\<lambda>a. CTG (getCanonicalType a)) elements = map CTG elements" .
  also have "map CTG elements = map Some cts"
    using arguments unfolding argumentTypes_tuple [OF tuple] .
  finally have canon: "map (\<lambda>a. CTG (getCanonicalType a)) elements = map Some cts" .
  show ?thesis
    unfolding tuple_path [where CTG = CTG, OF loader result tuple]
    by (simp add: sumParmSizes_words [OF canon] encodeArguments_words [OF canon]
          frameEncoding64_def comp_def)
next
  case False
  then have single: "\<forall>elements. getCanonicalType (getInput T) \<noteq> TupleType elements"
    by blast
  from arguments obtain c where cts: "cts = [c]"
    and c: "CTG (getCanonicalType (getInput T)) = Some c"
    by (auto simp: argumentTypes_single [OF single])
  show ?thesis
    unfolding single_path [where CTG = CTG, OF loader result single]
    by (simp add: c cts frameEncoding64_def)
qed

lemma null_result:
  assumes loader: "getClangModuleLoader IGM = Some ctx"
    and result: "CTG (getCanonicalType (getResult T)) = None"
  shows "GetObjCEncodingForMethodType CTG IGM T = Inr ConstantPointerNull"
  by (simp add: GetObjCEncodingForMethodType_def loader result)

lemma null_argument:
  assumes loader: "getClangModuleLoader IGM = Some ctx"
    and argument: "\<exists>a\<in>set (argumentTypes T). CTG a = None"
  shows "GetObjCEncodingForMethodType CTG IGM T = Inr ConstantPointerNull"
proof (cases "CTG (getCanonicalType (getResult T))")
  case None
  then show ?thesis by (rule null_result [OF loader])
next
  case (Some r)
  show ?thesis
  proof (cases "\<exists>elements. getCanonicalType (getInput T) = TupleType elements")
    case True
    then obtain elements where tuple: "getCanonicalType (getInput T) = TupleType elements"
      by blast
    from argument obtain a where a: "a \<in> set elements" "CTG a = None"
      unfolding argumentTypes_tuple [OF tuple] by blast
    have "\<forall>x\<in>set elements. getCanonicalType x = x"
      using canonical_elements [OF tuple] map_eq_conv [of getCanonicalType elements id]
      by simp
    with a have "CTG (getCanonicalType a) = None"
      by simp
    with a(1) have "\<exists>a\<in>set elements. CTG (getCanonicalType a) = None"
      by (rule bexI [rotated])
    then have "sumParmSizes CTG ctx elements (2 * getPointerSize IGM) = None"
      by (simp only: sumParmSizes_None_iff)
    then show ?thesis
      unfolding tuple_path [where CTG = CTG, OF loader Some tuple] by simp
  next
    case False
    then have single: "\<forall>elements. getCanonicalType (getInput T) \<noteq> TupleType elements"
      by blast
    from argument have "CTG (getCanonicalType (getInput T)) = None"
      unfolding argumentTypes_single [OF single] by simp
    then show ?thesis
      unfolding single_path [where CTG = CTG, OF loader Some single] by simp
  qed
qed

lemma frameEncoding_nullary:
  "frameEncoding returnCode P [] = returnCode @ utostr (2 * P) @ ''@0:'' @ utostr P"
  by (simp add: frameEncoding_def)

lemma frameEncoding_two:
  "frameEncoding returnCode P [(c1, s1), (c2, s2)] =
   returnCode @ utostr (2 * P + s1 + s2) @ ''@0:'' @ utostr P @
   c1 @ utostr (2 * P) @ c2 @ utostr (2 * P + s1)"
  by (simp add: frameEncoding_def add.assoc)

text \<open>
  Claim C3. When the result type and every argument type have a Clang type, the encoding
  of a method is the code of the result, the size of the frame (twice the pointer size
  plus the sizes of the arguments), the codes \<open>@0:\<close> of receiver and selector with the
  pointer size, and then the code of each argument with its offset, where the offsets
  start at twice the pointer size and grow by the sizes. A method without arguments
  encodes to the code of the result, twice the pointer size, \<open>@0:\<close> and the pointer
  size; with two arguments of sizes \<open>s1\<close> and \<open>s2\<close> the offsets are \<open>2P\<close> and
  \<open>2P + s1\<close> and the frame size is \<open>2P + s1 + s2\<close>. The source counts offsets in
  64 bits and prints them as signed: the statement is for frames below \<open>2^63\<close> bytes.
\<close>

theorem method_encoding_layout:
  assumes loader: "getClangModuleLoader IGM = Some ctx"
    and result: "CTG (getCanonicalType (getResult T)) = Some r"
    and arguments: "map CTG (argumentTypes T) = map Some cts"
    and range: "2 * unat (getPointerSize IGM) +
                sum_list (map (\<lambda>c. unat (getObjCEncodingTypeSize ctx c)) cts) < 2 ^ 63"
  shows "GetObjCEncodingForMethodType CTG IGM T =
           Inr (AddrOfGlobalString
             (frameEncoding (getObjCEncodingForType ctx r) (unat (getPointerSize IGM))
                (map (\<lambda>c. (getObjCEncodingForType ctx c, unat (getObjCEncodingTypeSize ctx c)))
                   cts))) \<and>
         frameEncoding returnCode P [] = returnCode @ utostr (2 * P) @ ''@0:'' @ utostr P \<and>
         frameEncoding returnCode P [(c1, s1), (c2, s2)] =
           returnCode @ utostr (2 * P + s1 + s2) @ ''@0:'' @ utostr P @
           c1 @ utostr (2 * P) @ c2 @ utostr (2 * P + s1)"
  using encoding_general [where CTG = CTG, OF loader result arguments range]
    frameEncoding_nullary [of returnCode P] frameEncoding_two [of returnCode P c1 s1 c2 s2]
  by (simp only: simp_thms)

lemma utostr_values:
  "utostr 8 = ''8''" "utostr 16 = ''16''" "utostr 20 = ''20''" "utostr 28 = ''28''"
  by code_simp+

theorem method_encoding_layout_witness:
  "GetObjCEncodingForMethodType exampleCTG exampleModule
     \<lparr>getInput = TupleType [NominalType 1, NominalType 2], getResult = TupleType [],
      isBlock = False\<rparr> =
   Inr (AddrOfGlobalString ''v28@0:8i16@20'') \<and>
   GetObjCEncodingForMethodType exampleCTG exampleModule
     \<lparr>getInput = TupleType [], getResult = NominalType 2, isBlock = False\<rparr> =
   Inr (AddrOfGlobalString ''@16@0:8'')"
proof -
  have loader: "getClangModuleLoader exampleModule = Some exampleContext"
    by (simp add: exampleModule_def)
  have P: "unat (getPointerSize exampleModule) = 8"
    by (simp add: exampleModule_def)
  let ?T = "\<lparr>getInput = TupleType [NominalType 1, NominalType 2], getResult = TupleType [],
      isBlock = False\<rparr>"
  have r: "exampleCTG (getCanonicalType (getResult ?T)) = Some 0"
    by simp
  have a: "map exampleCTG (argumentTypes ?T) = map Some [1, 2]"
    by (simp add: argumentTypes_def)
  have b: "2 * unat (getPointerSize exampleModule) +
      sum_list (map (\<lambda>c. unat (getObjCEncodingTypeSize exampleContext c)) [1, 2]) < 2 ^ 63"
    by (simp add: P exampleContext_def)
  let ?N = "\<lparr>getInput = TupleType [], getResult = NominalType 2, isBlock = False\<rparr>"
  have r': "exampleCTG (getCanonicalType (getResult ?N)) = Some 2"
    by simp
  have a': "map exampleCTG (argumentTypes ?N) = map Some []"
    by (simp add: argumentTypes_def)
  have b': "2 * unat (getPointerSize exampleModule) +
      sum_list (map (\<lambda>c. unat (getObjCEncodingTypeSize exampleContext c)) []) < 2 ^ 63"
    by (simp add: P)
  show ?thesis
    using method_encoding_layout [where CTG = exampleCTG, OF loader r a b]
      method_encoding_layout [where CTG = exampleCTG, OF loader r' a' b']
    by (simp add: frameEncoding_def P exampleContext_def utostr_values)
qed

text \<open>
  Claim C4. The encoding of a method is all or nothing: a result type without a Clang
  type gives the null constant, an argument type without a Clang type gives the null
  constant, and a result that is not the null constant is the string of the whole frame:
  then the result type and every argument type have a Clang type, and the string holds
  the code and the offset of each of them.
\<close>

theorem method_encoding_all_or_nothing:
  assumes loader: "getClangModuleLoader IGM = Some ctx"
  shows "(CTG (getCanonicalType (getResult T)) = None \<longrightarrow>
            GetObjCEncodingForMethodType CTG IGM T = Inr ConstantPointerNull) \<and>
         ((\<exists>a\<in>set (argumentTypes T). CTG a = None) \<longrightarrow>
            GetObjCEncodingForMethodType CTG IGM T = Inr ConstantPointerNull) \<and>
         (GetObjCEncodingForMethodType CTG IGM T \<noteq> Inr ConstantPointerNull \<longrightarrow>
            (\<exists>r cts. CTG (getCanonicalType (getResult T)) = Some r \<and>
               map CTG (argumentTypes T) = map Some cts \<and>
               GetObjCEncodingForMethodType CTG IGM T =
                 Inr (AddrOfGlobalString
                   (frameEncoding64 (getObjCEncodingForType ctx r) (getPointerSize IGM)
                      (map (\<lambda>c. (getObjCEncodingForType ctx c, getObjCEncodingTypeSize ctx c))
                         cts)))))"
proof (intro conjI impI)
  assume "CTG (getCanonicalType (getResult T)) = None"
  then show "GetObjCEncodingForMethodType CTG IGM T = Inr ConstantPointerNull"
    by (rule null_result [OF loader])
next
  assume "\<exists>a\<in>set (argumentTypes T). CTG a = None"
  then show "GetObjCEncodingForMethodType CTG IGM T = Inr ConstantPointerNull"
    by (rule null_argument [OF loader])
next
  assume non_null: "GetObjCEncodingForMethodType CTG IGM T \<noteq> Inr ConstantPointerNull"
  then obtain r where r: "CTG (getCanonicalType (getResult T)) = Some r"
    using null_result [where CTG = CTG, OF loader] by (cases "CTG (getCanonicalType (getResult T))") auto
  have "\<forall>a\<in>set (argumentTypes T). CTG a \<noteq> None"
  proof (rule ccontr)
    assume "\<not> (\<forall>a\<in>set (argumentTypes T). CTG a \<noteq> None)"
    then have "\<exists>a\<in>set (argumentTypes T). CTG a = None"
      by simp
    then have "GetObjCEncodingForMethodType CTG IGM T = Inr ConstantPointerNull"
      by (rule null_argument [OF loader])
    with non_null show False
      by simp
  qed
  then obtain cts where cts: "map CTG (argumentTypes T) = map Some cts"
    using all_Some_map by blast
  from encoding_words [where CTG = CTG, OF loader r cts] r cts
  show "\<exists>r cts. CTG (getCanonicalType (getResult T)) = Some r \<and>
      map CTG (argumentTypes T) = map Some cts \<and>
      GetObjCEncodingForMethodType CTG IGM T =
        Inr (AddrOfGlobalString
          (frameEncoding64 (getObjCEncodingForType ctx r) (getPointerSize IGM)
             (map (\<lambda>c. (getObjCEncodingForType ctx c, getObjCEncodingTypeSize ctx c)) cts)))"
    by blast
qed

theorem method_encoding_all_or_nothing_witness:
  "GetObjCEncodingForMethodType exampleCTG exampleModule
     \<lparr>getInput = TupleType [NominalType 1, NominalType 9], getResult = TupleType [],
      isBlock = False\<rparr> = Inr ConstantPointerNull \<and>
   GetObjCEncodingForMethodType exampleCTG exampleModule
     \<lparr>getInput = NominalType 1, getResult = NominalType 9, isBlock = False\<rparr> =
     Inr ConstantPointerNull"
proof -
  have loader: "getClangModuleLoader exampleModule = Some exampleContext"
    by (simp add: exampleModule_def)
  let ?A = "\<lparr>getInput = TupleType [NominalType 1, NominalType 9], getResult = TupleType [],
      isBlock = False\<rparr>"
  let ?R = "\<lparr>getInput = NominalType 1, getResult = NominalType 9, isBlock = False\<rparr>"
  have a: "\<exists>a\<in>set (argumentTypes ?A). exampleCTG a = None"
    by (simp add: argumentTypes_def)
  have r: "exampleCTG (getCanonicalType (getResult ?R)) = None"
    by simp
  show ?thesis
    using method_encoding_all_or_nothing [where CTG = exampleCTG and T = ?A, OF loader]
      method_encoding_all_or_nothing [where CTG = exampleCTG and T = ?R, OF loader] a r
    by blast
qed

section \<open>Descriptor parts\<close>

lemma method_parts_assign_all:
  assumes "emitObjCMethodDescriptorParts CTG IGM method parts = Inr (parts', IGM')"
  shows "\<exists>name encoding pointer.
           selectorRef parts' = Some name \<and> atEncoding parts' = Some encoding \<and>
           impl parts' = Some pointer"
proof -
  obtain selector where sel: "Selector_ValueDecl (afd_asValueDecl method) = Inr selector"
    using assms
    by (cases "Selector_ValueDecl (afd_asValueDecl method)")
       (simp_all add: emitObjCMethodDescriptorParts_def)
  obtain name IGM1 where m: "getAddrOfObjCMethodName selector IGM = (name, IGM1)"
    by (cases "getAddrOfObjCMethodName selector IGM")
  show ?thesis
    using assms
    by (auto simp: emitObjCMethodDescriptorParts_def sel m split: sum.splits)
qed

lemma methodName_keeps_loader:
  "getClangModuleLoader (snd (getAddrOfObjCMethodName selector IGM)) = getClangModuleLoader IGM"
  by (cases "ObjCMethodNames IGM selector")
     (simp_all add: getAddrOfObjCMethodName_def newGlobalVariable_def Let_def)

lemma getter_parts_unencodable:
  assumes "getClangModuleLoader IGM = Some ctx"
    and "CTG (getCanonicalType (var_getType property)) = None"
  shows "emitObjCGetterDescriptorParts_VarDecl CTG IGM property parts =
         Inr (parts\<lparr>selectorRef :=
                 Some (fst (getAddrOfObjCMethodName (var_getObjCGetterSelector property) IGM)),
               atEncoding := Some ConstantPointerNull\<rparr>,
              snd (getAddrOfObjCMethodName (var_getObjCGetterSelector property) IGM))"
proof -
  obtain name IGM1 where
    m: "getAddrOfObjCMethodName (var_getObjCGetterSelector property) IGM = (name, IGM1)"
    by (cases "getAddrOfObjCMethodName (var_getObjCGetterSelector property) IGM")
  have "getClangModuleLoader IGM1 = Some ctx"
    using methodName_keeps_loader [of "var_getObjCGetterSelector property" IGM] m assms(1)
    by simp
  then show ?thesis
    by (simp add: emitObjCGetterDescriptorParts_VarDecl_def m assms(2))
qed

lemma setter_parts_unencodable:
  assumes "getClangModuleLoader IGM = Some ctx"
    and "CTG (getCanonicalType (var_getType property)) = None"
    and "var_isSettable property"
  shows "emitObjCSetterDescriptorParts_VarDecl CTG IGM property parts =
         Inr (parts\<lparr>selectorRef :=
                 Some (fst (getAddrOfObjCMethodName (var_getObjCSetterSelector property) IGM)),
               atEncoding := Some ConstantPointerNull\<rparr>,
              snd (getAddrOfObjCMethodName (var_getObjCSetterSelector property) IGM))"
proof -
  obtain name IGM1 where
    m: "getAddrOfObjCMethodName (var_getObjCSetterSelector property) IGM = (name, IGM1)"
    by (cases "getAddrOfObjCMethodName (var_getObjCSetterSelector property) IGM")
  have "getClangModuleLoader IGM1 = Some ctx"
    using methodName_keeps_loader [of "var_getObjCSetterSelector property" IGM] m assms(1)
    by simp
  then show ?thesis
    by (simp add: emitObjCSetterDescriptorParts_VarDecl_def m assms(2,3) Let_def)
qed

text \<open>
  Claim C6 says that a property whose type has no Clang type still gets descriptors with
  a selector and an implementation pointer, and only the encoding null. The emitters for a
  property return right after they have set the null encoding, before they assign the
  implementation pointer. On the property \<open>delegate\<close>, whose type has no Clang type,
  the getter descriptor is built from an implementation pointer that was never assigned,
  and so is the setter descriptor; the emitter for methods above assigns all three.
\<close>

theorem property_unencodable_impl_unassigned:
  "map_sum id fst (emitObjCPropertyMethodDescriptors exampleCTG exampleModule exampleProperty) =
   Inr (\<lparr>selectorRef = Some (GetElementPtr00 (GlobalVariableAddr 0)),
         atEncoding = Some ConstantPointerNull,
         impl = None\<rparr>,
        Some \<lparr>selectorRef = Some (GetElementPtr00 (GlobalVariableAddr 1)),
              atEncoding = Some ConstantPointerNull,
              impl = None\<rparr>)"
proof -
  have loader: "getClangModuleLoader exampleModule = Some exampleContext"
    by (simp add: exampleModule_def)
  have ty: "exampleCTG (getCanonicalType (var_getType exampleProperty)) = None"
    by (simp add: exampleProperty_def)
  have settable: "var_isSettable exampleProperty"
    by (simp add: exampleProperty_def)
  define IGM1 where "IGM1 = snd (getAddrOfObjCMethodName ''delegate'' exampleModule)"
  have loader1: "getClangModuleLoader IGM1 = Some exampleContext"
    by (simp add: IGM1_def methodName_keeps_loader loader)
  have n0: "fst (getAddrOfObjCMethodName ''delegate'' exampleModule) =
            GetElementPtr00 (GlobalVariableAddr 0)"
    by (simp add: getAddrOfObjCMethodName_def exampleModule_def newGlobalVariable_def Let_def)
  have n1: "fst (getAddrOfObjCMethodName ''setDelegate:'' IGM1) =
            GetElementPtr00 (GlobalVariableAddr 1)"
    by (simp add: IGM1_def getAddrOfObjCMethodName_def exampleModule_def newGlobalVariable_def
          Let_def)
  have sels: "var_getObjCGetterSelector exampleProperty = ''delegate''"
    "var_getObjCSetterSelector exampleProperty = ''setDelegate:''"
    by (simp_all add: exampleProperty_def)
  show ?thesis
    unfolding emitObjCPropertyMethodDescriptors_def
      getter_parts_unencodable [where CTG = exampleCTG, OF loader ty]
    using setter_parts_unencodable [where CTG = exampleCTG, OF loader1 ty settable]
    by (simp add: settable sels IGM1_def [symmetric] n0 n1 uninitialized_def)
qed

lemma methodName_keeps_functions:
  "SILFunctions (snd (getAddrOfObjCMethodName selector IGM)) = SILFunctions IGM"
  by (cases "ObjCMethodNames IGM selector")
     (simp_all add: getAddrOfObjCMethodName_def newGlobalVariable_def Let_def)

lemma thunk_result:
  assumes "findSwiftAsObjCThunk IGM ref = Inr (pointer, IGM')"
  shows "(\<exists>fn. SILFunctions IGM ref = Some fn \<and> pointer = BitCast (FunctionAddr fn)) \<and>
         SILFunctions IGM' = SILFunctions IGM"
  using assms
  by (auto simp: findSwiftAsObjCThunk_def split: option.splits)

lemma getter_pointer_result:
  assumes "getObjCGetterPointer IGM property = Inr (pointer, IGM')"
  shows "(asd_inProtocol property \<longrightarrow> pointer = ConstantPointerNull) \<and>
         (\<not> asd_inProtocol property \<longrightarrow>
            (\<exists>fn. SILFunctions IGM
                    \<lparr>kind = Func, getDecl = AsFuncDecl (asd_getGetter property),
                     uncurryLevel = None, isForeign = True\<rparr> = Some fn \<and>
                  pointer = BitCast (FunctionAddr fn))) \<and>
         SILFunctions IGM' = SILFunctions IGM"
proof (cases "asd_inProtocol property")
  case True
  with assms show ?thesis
    by (simp add: getObjCGetterPointer_def)
next
  case False
  with assms have "findSwiftAsObjCThunk IGM
      \<lparr>kind = Func, getDecl = AsFuncDecl (asd_getGetter property),
       uncurryLevel = None, isForeign = True\<rparr> = Inr (pointer, IGM')"
    by (simp add: getObjCGetterPointer_def)
  from thunk_result [OF this] False show ?thesis
    by simp
qed

lemma setter_pointer_result:
  assumes "getObjCSetterPointer IGM property = Inr (pointer, IGM')"
  shows "(asd_inProtocol property \<longrightarrow> pointer = ConstantPointerNull) \<and>
         (\<not> asd_inProtocol property \<longrightarrow>
            (\<exists>fn. SILFunctions IGM
                    \<lparr>kind = Func, getDecl = AsFuncDecl (asd_getSetter property),
                     uncurryLevel = None, isForeign = True\<rparr> = Some fn \<and>
                  pointer = BitCast (FunctionAddr fn))) \<and>
         SILFunctions IGM' = SILFunctions IGM"
proof (cases "asd_inProtocol property")
  case True
  with assms show ?thesis
    by (simp add: getObjCSetterPointer_def)
next
  case False
  with assms have "findSwiftAsObjCThunk IGM
      \<lparr>kind = Func, getDecl = AsFuncDecl (asd_getSetter property),
       uncurryLevel = None, isForeign = True\<rparr> = Inr (pointer, IGM')"
    by (simp add: getObjCSetterPointer_def split: if_splits)
  from thunk_result [OF this] False show ?thesis
    by simp
qed

lemma subscript_getter_parts:
  assumes "emitObjCGetterDescriptorParts_SubscriptDecl IGM subscript parts = Inr (parts', IGM')"
  shows "atEncoding parts' = Some ConstantPointerNull \<and>
         selectorRef parts' =
           Some (fst (getAddrOfObjCMethodName (sub_getObjCGetterSelector subscript) IGM)) \<and>
         (\<exists>pointer.
            getObjCGetterPointer
              (snd (getAddrOfObjCMethodName (sub_getObjCGetterSelector subscript) IGM))
              (SubscriptStorage subscript) = Inr (pointer, IGM') \<and>
            impl parts' = Some pointer) \<and>
         (sub_inProtocol subscript \<longrightarrow> impl parts' = Some ConstantPointerNull) \<and>
         (\<not> sub_inProtocol subscript \<longrightarrow>
            (\<exists>fn. SILFunctions IGM
                    \<lparr>kind = Func, getDecl = AsFuncDecl (sub_getGetter subscript),
                     uncurryLevel = None, isForeign = True\<rparr> = Some fn \<and>
                  impl parts' = Some (BitCast (FunctionAddr fn)))) \<and>
         SILFunctions IGM' = SILFunctions IGM"
proof -
  obtain name IGM1 where
    m: "getAddrOfObjCMethodName (sub_getObjCGetterSelector subscript) IGM = (name, IGM1)"
    by (cases "getAddrOfObjCMethodName (sub_getObjCGetterSelector subscript) IGM")
  have f: "SILFunctions IGM1 = SILFunctions IGM"
    using methodName_keeps_functions [of "sub_getObjCGetterSelector subscript" IGM] m by simp
  from assms obtain pointer where
    p: "getObjCGetterPointer IGM1 (SubscriptStorage subscript) = Inr (pointer, IGM')"
    and parts': "parts' = parts\<lparr>selectorRef := Some name,
                   atEncoding := Some ConstantPointerNull, impl := Some pointer\<rparr>"
    by (auto simp: emitObjCGetterDescriptorParts_SubscriptDecl_def m split: sum.splits)
  from getter_pointer_result [OF p] f p parts' m show ?thesis
    by (simp add: asd_inProtocol_def asd_getGetter_def)
qed

lemma subscript_setter_parts:
  assumes "emitObjCSetterDescriptorParts_SubscriptDecl IGM subscript parts = Inr (parts', IGM')"
  shows "atEncoding parts' = Some ConstantPointerNull \<and>
         selectorRef parts' =
           Some (fst (getAddrOfObjCMethodName (sub_getObjCSetterSelector subscript) IGM)) \<and>
         (\<exists>pointer.
            getObjCSetterPointer
              (snd (getAddrOfObjCMethodName (sub_getObjCSetterSelector subscript) IGM))
              (SubscriptStorage subscript) = Inr (pointer, IGM') \<and>
            impl parts' = Some pointer) \<and>
         (sub_inProtocol subscript \<longrightarrow> impl parts' = Some ConstantPointerNull) \<and>
         (\<not> sub_inProtocol subscript \<longrightarrow>
            (\<exists>fn. SILFunctions IGM
                    \<lparr>kind = Func, getDecl = AsFuncDecl (sub_getSetter subscript),
                     uncurryLevel = None, isForeign = True\<rparr> = Some fn \<and>
                  impl parts' = Some (BitCast (FunctionAddr fn)))) \<and>
         SILFunctions IGM' = SILFunctions IGM \<and>
         sub_isSettable subscript"
proof -
  obtain name IGM1 where
    m: "getAddrOfObjCMethodName (sub_getObjCSetterSelector subscript) IGM = (name, IGM1)"
    by (cases "getAddrOfObjCMethodName (sub_getObjCSetterSelector subscript) IGM")
  have f: "SILFunctions IGM1 = SILFunctions IGM"
    using methodName_keeps_functions [of "sub_getObjCSetterSelector subscript" IGM] m by simp
  from assms have settable: "sub_isSettable subscript"
    by (auto simp: emitObjCSetterDescriptorParts_SubscriptDecl_def split: if_splits)
  from assms obtain pointer where
    p: "getObjCSetterPointer IGM1 (SubscriptStorage subscript) = Inr (pointer, IGM')"
    and parts': "parts' = parts\<lparr>selectorRef := Some name,
                   atEncoding := Some ConstantPointerNull, impl := Some pointer\<rparr>"
    by (auto simp: emitObjCSetterDescriptorParts_SubscriptDecl_def m settable split: sum.splits)
  from setter_pointer_result [OF p] f p parts' m settable show ?thesis
    by (simp add: asd_inProtocol_def asd_getSetter_def)
qed

lemma subscript_descriptor_pair:
  assumes "emitObjCSubscriptMethodDescriptors IGM subscript = Inr ((getter, setter), IGM')"
  shows "atEncoding getter = Some ConstantPointerNull \<and>
         (sub_inProtocol subscript \<longrightarrow> impl getter = Some ConstantPointerNull) \<and>
         (\<not> sub_inProtocol subscript \<longrightarrow>
            (\<exists>fn. SILFunctions IGM
                    \<lparr>kind = Func, getDecl = AsFuncDecl (sub_getGetter subscript),
                     uncurryLevel = None, isForeign = True\<rparr> = Some fn \<and>
                  impl getter = Some (BitCast (FunctionAddr fn)))) \<and>
         (case setter of
            None \<Rightarrow> \<not> sub_isSettable subscript
          | Some descriptor \<Rightarrow>
              sub_isSettable subscript \<and> atEncoding descriptor = Some ConstantPointerNull \<and>
              (sub_inProtocol subscript \<longrightarrow> impl descriptor = Some ConstantPointerNull) \<and>
              (\<not> sub_inProtocol subscript \<longrightarrow>
                 (\<exists>fn. SILFunctions IGM
                         \<lparr>kind = Func, getDecl = AsFuncDecl (sub_getSetter subscript),
                          uncurryLevel = None, isForeign = True\<rparr> = Some fn \<and>
                       impl descriptor = Some (BitCast (FunctionAddr fn)))))"
proof (cases "emitObjCGetterDescriptorParts_SubscriptDecl IGM subscript uninitialized")
  case (Inl e)
  with assms show ?thesis
    by (simp add: emitObjCSubscriptMethodDescriptors_def)
next
  case (Inr r)
  obtain g IGM1 where r: "r = (g, IGM1)" by (cases r)
  note g = subscript_getter_parts [OF Inr [unfolded r]]
  show ?thesis
  proof (cases "sub_isSettable subscript")
    case False
    with assms Inr r have "getter = g" "setter = None"
      by (simp_all add: emitObjCSubscriptMethodDescriptors_def)
    with g False show ?thesis
      by simp
  next
    case True
    show ?thesis
    proof (cases "emitObjCSetterDescriptorParts_SubscriptDecl IGM1 subscript g")
      case (Inl e)
      with assms Inr r True show ?thesis
        by (simp add: emitObjCSubscriptMethodDescriptors_def)
    next
      case (Inr q)
      obtain s IGM2 where q: "q = (s, IGM2)" by (cases q)
      note s = subscript_setter_parts [OF Inr [unfolded q]]
      from assms \<open>emitObjCGetterDescriptorParts_SubscriptDecl IGM subscript uninitialized = Inr r\<close>
        r Inr q True
      have "getter = g" "setter = Some s"
        by (simp_all add: emitObjCSubscriptMethodDescriptors_def)
      with g s True show ?thesis
        by simp
    qed
  qed
qed

text \<open>
  Claim C10. The getter and the setter descriptor of a subscript carry the null constant
  as type encoding, whatever the element type: the emitters do not look at it. The
  selector is the method name of the accessor's selector, and the implementation pointer
  is the pointer that \<^verbatim>\<open>getObjCGetterPointer\<close> or \<^verbatim>\<open>getObjCSetterPointer\<close>
  returns: the thunk that the module holds for the accessor, cast to a byte pointer, and
  the null constant only for a subscript of a protocol, which has no implementation. So
  it is for the pair of descriptors that is emitted for a subscript, whose second
  descriptor is there exactly when the subscript is settable.
\<close>

theorem subscript_descriptors_null_encoding:
  "(emitObjCGetterDescriptorParts_SubscriptDecl IGM subscript parts = Inr (getter, IGM1) \<longrightarrow>
      atEncoding getter = Some ConstantPointerNull \<and>
      selectorRef getter =
        Some (fst (getAddrOfObjCMethodName (sub_getObjCGetterSelector subscript) IGM)) \<and>
      (\<exists>pointer.
         getObjCGetterPointer
           (snd (getAddrOfObjCMethodName (sub_getObjCGetterSelector subscript) IGM))
           (SubscriptStorage subscript) = Inr (pointer, IGM1) \<and>
         impl getter = Some pointer) \<and>
      (sub_inProtocol subscript \<longrightarrow> impl getter = Some ConstantPointerNull) \<and>
      (\<not> sub_inProtocol subscript \<longrightarrow>
         (\<exists>fn. SILFunctions IGM
                 \<lparr>kind = Func, getDecl = AsFuncDecl (sub_getGetter subscript),
                  uncurryLevel = None, isForeign = True\<rparr> = Some fn \<and>
               impl getter = Some (BitCast (FunctionAddr fn))))) \<and>
   (emitObjCSetterDescriptorParts_SubscriptDecl IGM subscript parts = Inr (setter, IGM2) \<longrightarrow>
      atEncoding setter = Some ConstantPointerNull \<and>
      selectorRef setter =
        Some (fst (getAddrOfObjCMethodName (sub_getObjCSetterSelector subscript) IGM)) \<and>
      (\<exists>pointer.
         getObjCSetterPointer
           (snd (getAddrOfObjCMethodName (sub_getObjCSetterSelector subscript) IGM))
           (SubscriptStorage subscript) = Inr (pointer, IGM2) \<and>
         impl setter = Some pointer) \<and>
      (sub_inProtocol subscript \<longrightarrow> impl setter = Some ConstantPointerNull) \<and>
      (\<not> sub_inProtocol subscript \<longrightarrow>
         (\<exists>fn. SILFunctions IGM
                 \<lparr>kind = Func, getDecl = AsFuncDecl (sub_getSetter subscript),
                  uncurryLevel = None, isForeign = True\<rparr> = Some fn \<and>
               impl setter = Some (BitCast (FunctionAddr fn))))) \<and>
   (emitObjCSubscriptMethodDescriptors IGM subscript = Inr ((first, second), IGM3) \<longrightarrow>
      atEncoding first = Some ConstantPointerNull \<and>
      (sub_inProtocol subscript \<longrightarrow> impl first = Some ConstantPointerNull) \<and>
      (\<not> sub_inProtocol subscript \<longrightarrow>
         (\<exists>fn. SILFunctions IGM
                 \<lparr>kind = Func, getDecl = AsFuncDecl (sub_getGetter subscript),
                  uncurryLevel = None, isForeign = True\<rparr> = Some fn \<and>
               impl first = Some (BitCast (FunctionAddr fn)))) \<and>
      (case second of
         None \<Rightarrow> \<not> sub_isSettable subscript
       | Some descriptor \<Rightarrow>
           sub_isSettable subscript \<and> atEncoding descriptor = Some ConstantPointerNull \<and>
           (sub_inProtocol subscript \<longrightarrow> impl descriptor = Some ConstantPointerNull) \<and>
           (\<not> sub_inProtocol subscript \<longrightarrow>
              (\<exists>fn. SILFunctions IGM
                      \<lparr>kind = Func, getDecl = AsFuncDecl (sub_getSetter subscript),
                       uncurryLevel = None, isForeign = True\<rparr> = Some fn \<and>
                    impl descriptor = Some (BitCast (FunctionAddr fn))))))"
proof (intro conjI impI)
  assume a: "emitObjCGetterDescriptorParts_SubscriptDecl IGM subscript parts = Inr (getter, IGM1)"
  note g = subscript_getter_parts [OF a]
  from g show "atEncoding getter = Some ConstantPointerNull" by simp
  from g show "selectorRef getter =
      Some (fst (getAddrOfObjCMethodName (sub_getObjCGetterSelector subscript) IGM))" by simp
  from g show "\<exists>pointer.
      getObjCGetterPointer
        (snd (getAddrOfObjCMethodName (sub_getObjCGetterSelector subscript) IGM))
        (SubscriptStorage subscript) = Inr (pointer, IGM1) \<and>
      impl getter = Some pointer" by simp
  { assume "sub_inProtocol subscript"
    with g show "impl getter = Some ConstantPointerNull" by simp }
  { assume "\<not> sub_inProtocol subscript"
    with g show "\<exists>fn. SILFunctions IGM
          \<lparr>kind = Func, getDecl = AsFuncDecl (sub_getGetter subscript),
           uncurryLevel = None, isForeign = True\<rparr> = Some fn \<and>
        impl getter = Some (BitCast (FunctionAddr fn))" by simp }
next
  assume a: "emitObjCSetterDescriptorParts_SubscriptDecl IGM subscript parts = Inr (setter, IGM2)"
  note s = subscript_setter_parts [OF a]
  from s show "atEncoding setter = Some ConstantPointerNull" by simp
  from s show "selectorRef setter =
      Some (fst (getAddrOfObjCMethodName (sub_getObjCSetterSelector subscript) IGM))" by simp
  from s show "\<exists>pointer.
      getObjCSetterPointer
        (snd (getAddrOfObjCMethodName (sub_getObjCSetterSelector subscript) IGM))
        (SubscriptStorage subscript) = Inr (pointer, IGM2) \<and>
      impl setter = Some pointer" by simp
  { assume "sub_inProtocol subscript"
    with s show "impl setter = Some ConstantPointerNull" by simp }
  { assume "\<not> sub_inProtocol subscript"
    with s show "\<exists>fn. SILFunctions IGM
          \<lparr>kind = Func, getDecl = AsFuncDecl (sub_getSetter subscript),
           uncurryLevel = None, isForeign = True\<rparr> = Some fn \<and>
        impl setter = Some (BitCast (FunctionAddr fn))" by simp }
next
  assume a: "emitObjCSubscriptMethodDescriptors IGM subscript = Inr ((first, second), IGM3)"
  note p = subscript_descriptor_pair [OF a]
  from p show "atEncoding first = Some ConstantPointerNull" by simp
  { assume "sub_inProtocol subscript"
    with p show "impl first = Some ConstantPointerNull" by simp }
  { assume "\<not> sub_inProtocol subscript"
    with p show "\<exists>fn. SILFunctions IGM
          \<lparr>kind = Func, getDecl = AsFuncDecl (sub_getGetter subscript),
           uncurryLevel = None, isForeign = True\<rparr> = Some fn \<and>
        impl first = Some (BitCast (FunctionAddr fn))" by simp }
  from p show "case second of
       None \<Rightarrow> \<not> sub_isSettable subscript
     | Some descriptor \<Rightarrow>
         sub_isSettable subscript \<and> atEncoding descriptor = Some ConstantPointerNull \<and>
         (sub_inProtocol subscript \<longrightarrow> impl descriptor = Some ConstantPointerNull) \<and>
         (\<not> sub_inProtocol subscript \<longrightarrow>
            (\<exists>fn. SILFunctions IGM
                    \<lparr>kind = Func, getDecl = AsFuncDecl (sub_getSetter subscript),
                     uncurryLevel = None, isForeign = True\<rparr> = Some fn \<and>
                  impl descriptor = Some (BitCast (FunctionAddr fn))))" by simp
qed

lemma example_subscript_getter:
  "\<exists>getter IGM1. emitObjCGetterDescriptorParts_SubscriptDecl exampleModule exampleSubscript
     uninitialized = Inr (getter, IGM1)"
  by (simp add: emitObjCGetterDescriptorParts_SubscriptDecl_def exampleSubscript_def
        getAddrOfObjCMethodName_def newGlobalVariable_def exampleModule_def Let_def
        getObjCGetterPointer_def asd_inProtocol_def asd_getGetter_def findSwiftAsObjCThunk_def
        uninitialized_def)

lemma example_subscript_setter:
  "\<exists>setter IGM2. emitObjCSetterDescriptorParts_SubscriptDecl exampleModule exampleSubscript
     uninitialized = Inr (setter, IGM2)"
  by (simp add: emitObjCSetterDescriptorParts_SubscriptDecl_def exampleSubscript_def
        getAddrOfObjCMethodName_def newGlobalVariable_def exampleModule_def Let_def
        getObjCSetterPointer_def asd_inProtocol_def asd_getSetter_def asd_isSettable_def
        findSwiftAsObjCThunk_def uninitialized_def)

lemma example_protocol_subscript_getter:
  "\<exists>getter IGM1. emitObjCGetterDescriptorParts_SubscriptDecl exampleModule
     (SubscriptDecl ''objectAtIndexedSubscript:'' ''setObject:atIndexedSubscript:''
        (NominalType 2) True exampleGetter exampleSetter (NominalType 10) True True None)
     uninitialized = Inr (getter, IGM1)"
  by (simp add: emitObjCGetterDescriptorParts_SubscriptDecl_def
        getAddrOfObjCMethodName_def newGlobalVariable_def exampleModule_def Let_def
        getObjCGetterPointer_def asd_inProtocol_def uninitialized_def)

theorem subscript_descriptors_null_encoding_witness:
  "(\<exists>getter IGM1.
      emitObjCGetterDescriptorParts_SubscriptDecl exampleModule exampleSubscript uninitialized =
        Inr (getter, IGM1) \<and>
      atEncoding getter = Some ConstantPointerNull \<and>
      selectorRef getter = Some (GetElementPtr00 (GlobalVariableAddr 0)) \<and>
      impl getter = Some (BitCast (FunctionAddr 0))) \<and>
   (\<exists>setter IGM2.
      emitObjCSetterDescriptorParts_SubscriptDecl exampleModule exampleSubscript uninitialized =
        Inr (setter, IGM2) \<and>
      atEncoding setter = Some ConstantPointerNull \<and>
      selectorRef setter = Some (GetElementPtr00 (GlobalVariableAddr 0)) \<and>
      impl setter = Some (BitCast (FunctionAddr 0))) \<and>
   (\<exists>getter IGM1.
      emitObjCGetterDescriptorParts_SubscriptDecl exampleModule
        (SubscriptDecl ''objectAtIndexedSubscript:'' ''setObject:atIndexedSubscript:''
           (NominalType 2) True exampleGetter exampleSetter (NominalType 10) True True None)
        uninitialized = Inr (getter, IGM1) \<and>
      atEncoding getter = Some ConstantPointerNull \<and>
      impl getter = Some ConstantPointerNull)"
proof -
  let ?P = "SubscriptDecl ''objectAtIndexedSubscript:'' ''setObject:atIndexedSubscript:''
           (NominalType 2) True exampleGetter exampleSetter (NominalType 10) True True None"
  obtain getter IGM1 where
    g: "emitObjCGetterDescriptorParts_SubscriptDecl exampleModule exampleSubscript uninitialized =
        Inr (getter, IGM1)"
    using example_subscript_getter by blast
  obtain setter IGM2 where
    s: "emitObjCSetterDescriptorParts_SubscriptDecl exampleModule exampleSubscript uninitialized =
        Inr (setter, IGM2)"
    using example_subscript_setter by blast
  obtain pgetter IGM3 where
    p: "emitObjCGetterDescriptorParts_SubscriptDecl exampleModule ?P uninitialized =
        Inr (pgetter, IGM3)"
    using example_protocol_subscript_getter by blast
  have np: "\<not> sub_inProtocol exampleSubscript"
    by (simp add: exampleSubscript_def)
  have ip: "sub_inProtocol ?P"
    by simp
  have fg: "SILFunctions exampleModule
      \<lparr>kind = Func, getDecl = AsFuncDecl (sub_getGetter exampleSubscript),
       uncurryLevel = None, isForeign = True\<rparr> = Some 0"
    by (simp add: exampleModule_def)
  have fs: "SILFunctions exampleModule
      \<lparr>kind = Func, getDecl = AsFuncDecl (sub_getSetter exampleSubscript),
       uncurryLevel = None, isForeign = True\<rparr> = Some 0"
    by (simp add: exampleModule_def)
  have ng: "fst (getAddrOfObjCMethodName (sub_getObjCGetterSelector exampleSubscript)
      exampleModule) = GetElementPtr00 (GlobalVariableAddr 0)"
    by (simp add: getAddrOfObjCMethodName_def exampleModule_def newGlobalVariable_def Let_def)
  have ns: "fst (getAddrOfObjCMethodName (sub_getObjCSetterSelector exampleSubscript)
      exampleModule) = GetElementPtr00 (GlobalVariableAddr 0)"
    by (simp add: getAddrOfObjCMethodName_def exampleModule_def newGlobalVariable_def Let_def)
  note t = subscript_descriptors_null_encoding
      [of exampleModule exampleSubscript uninitialized getter IGM1 setter IGM2]
  note tp = subscript_descriptors_null_encoding
      [of exampleModule ?P uninitialized pgetter IGM3]
  from t g np fg ng have G: "atEncoding getter = Some ConstantPointerNull \<and>
      selectorRef getter = Some (GetElementPtr00 (GlobalVariableAddr 0)) \<and>
      impl getter = Some (BitCast (FunctionAddr 0))"
    by auto
  from t s np fs ns have S: "atEncoding setter = Some ConstantPointerNull \<and>
      selectorRef setter = Some (GetElementPtr00 (GlobalVariableAddr 0)) \<and>
      impl setter = Some (BitCast (FunctionAddr 0))"
    by auto
  from tp p ip have P: "atEncoding pgetter = Some ConstantPointerNull \<and>
      impl pgetter = Some ConstantPointerNull"
    by auto
  from g G s S p P show ?thesis
    by blast
qed

section \<open>Which declarations get a descriptor\<close>

lemma method_override:
  assumes "func_getOverriddenDecl func = Some override"
    and "requiresObjCMethodDescriptor_FuncDecl override = Inr True"
    and "\<not> func_isAccessor func"
    and "\<not> is_PolymorphicFunctionType (func_getType func)"
    and "getAs_AnyFunctionType (func_getType func) = Some ft"
    and "\<not> is_PolymorphicFunctionType (getResult ft)"
    and "\<not> is_BoundGenericType (func_declaredTypeInContext func)"
  shows "requiresObjCMethodDescriptor_FuncDecl func = Inr True"
  using assms by (cases func) simp

lemma property_override:
  assumes "var_getOverriddenDecl property = Some override"
    and "\<not> is_BoundGenericType (var_declaredTypeInContext property)"
  shows "requiresObjCPropertyDescriptor property = requiresObjCPropertyDescriptor override"
  using assms by (cases property) simp

lemma subscript_override:
  assumes "sub_getOverriddenDecl subscript = Some override"
    and "\<not> is_BoundGenericType (sub_declaredTypeInContext subscript)"
  shows "requiresObjCSubscriptDescriptor subscript = requiresObjCSubscriptDescriptor override"
  using assms by (cases subscript) simp

lemma constructor_own_mark:
  assumes "\<not> is_PolymorphicFunctionType (ctor_getType constructor)"
    and "getAs_AnyFunctionType (ctor_getType constructor) = Some ft"
    and "\<not> is_PolymorphicFunctionType (getResult ft)"
    and "\<not> is_BoundGenericType (ctor_declaredTypeInContext constructor)"
  shows "requiresObjCMethodDescriptor_ConstructorDecl constructor = Inr (ctor_isObjC constructor)"
  using assms by (cases constructor) simp

text \<open>
  Claim C8, as the code has it. A method that is no accessor, is not generic and does not
  belong to a bound generic type is eligible when the method it overrides is eligible. A
  property or a subscript that does not belong to a bound generic type and overrides a
  declaration is eligible exactly when that declaration is. The predicate for constructors
  does not look at the overridden constructor: a constructor that is not generic and does
  not belong to a bound generic type is eligible exactly when it is itself marked for
  Objective-C.
\<close>

theorem override_propagation:
  "(func_getOverriddenDecl func = Some overriddenFunc \<and>
    requiresObjCMethodDescriptor_FuncDecl overriddenFunc = Inr True \<and>
    \<not> func_isAccessor func \<and>
    \<not> is_PolymorphicFunctionType (func_getType func) \<and>
    getAs_AnyFunctionType (func_getType func) = Some ft \<and>
    \<not> is_PolymorphicFunctionType (getResult ft) \<and>
    \<not> is_BoundGenericType (func_declaredTypeInContext func) \<longrightarrow>
      requiresObjCMethodDescriptor_FuncDecl func = Inr True) \<and>
   (var_getOverriddenDecl property = Some overriddenProperty \<and>
    \<not> is_BoundGenericType (var_declaredTypeInContext property) \<longrightarrow>
      requiresObjCPropertyDescriptor property =
      requiresObjCPropertyDescriptor overriddenProperty) \<and>
   (sub_getOverriddenDecl subscript = Some overriddenSubscript \<and>
    \<not> is_BoundGenericType (sub_declaredTypeInContext subscript) \<longrightarrow>
      requiresObjCSubscriptDescriptor subscript =
      requiresObjCSubscriptDescriptor overriddenSubscript) \<and>
   (\<not> is_PolymorphicFunctionType (ctor_getType constructor) \<and>
    getAs_AnyFunctionType (ctor_getType constructor) = Some ctorType \<and>
    \<not> is_PolymorphicFunctionType (getResult ctorType) \<and>
    \<not> is_BoundGenericType (ctor_declaredTypeInContext constructor) \<longrightarrow>
      requiresObjCMethodDescriptor_ConstructorDecl constructor =
      Inr (ctor_isObjC constructor))"
  using method_override [of func overriddenFunc ft]
    property_override [of property overriddenProperty]
    subscript_override [of subscript overriddenSubscript]
    constructor_own_mark [of constructor ctorType]
  by blast

lemma example_types:
  "\<not> is_PolymorphicFunctionType (curriedMethodType i r)"
  "getAs_AnyFunctionType (curriedMethodType i r) =
     Some \<lparr>getInput = NominalType 10, getResult = FunctionType i r False, isBlock = False\<rparr>"
  "\<not> is_PolymorphicFunctionType (FunctionType i r False)"
  "\<not> is_BoundGenericType (NominalType n)"
  by (simp_all add: curriedMethodType_def is_PolymorphicFunctionType_def
        getAs_AnyFunctionType_def is_BoundGenericType_def)

theorem override_propagation_witness:
  "requiresObjCMethodDescriptor_FuncDecl exampleMethod = Inr True \<and>
   requiresObjCMethodDescriptor_FuncDecl exampleOverride = Inr True \<and>
   requiresObjCPropertyDescriptor exampleProperty \<and>
   requiresObjCPropertyDescriptor examplePropertyOverride \<and>
   requiresObjCSubscriptDescriptor exampleSubscript \<and>
   requiresObjCSubscriptDescriptor exampleSubscriptOverride \<and>
   requiresObjCMethodDescriptor_ConstructorDecl exampleInit = Inr True"
proof -
  have m: "requiresObjCMethodDescriptor_FuncDecl exampleMethod = Inr True"
    by (simp add: exampleMethod_def example_types)
  have p: "requiresObjCPropertyDescriptor exampleProperty"
    by (simp add: exampleProperty_def example_types getAs_AnyFunctionType_def)
  have s: "requiresObjCSubscriptDescriptor exampleSubscript"
    by (simp add: exampleSubscript_def example_types getAs_AnyFunctionType_def)
  have hm: "func_getOverriddenDecl exampleOverride = Some exampleMethod \<and>
    requiresObjCMethodDescriptor_FuncDecl exampleMethod = Inr True \<and>
    \<not> func_isAccessor exampleOverride \<and>
    \<not> is_PolymorphicFunctionType (func_getType exampleOverride) \<and>
    getAs_AnyFunctionType (func_getType exampleOverride) =
      Some \<lparr>getInput = NominalType 10,
            getResult = FunctionType (TupleType []) (TupleType []) False, isBlock = False\<rparr> \<and>
    \<not> is_PolymorphicFunctionType (getResult \<lparr>getInput = NominalType 10,
            getResult = FunctionType (TupleType []) (TupleType []) False, isBlock = False\<rparr>) \<and>
    \<not> is_BoundGenericType (func_declaredTypeInContext exampleOverride)"
    by (simp add: m exampleOverride_def example_types)
  have hp: "var_getOverriddenDecl examplePropertyOverride = Some exampleProperty \<and>
    \<not> is_BoundGenericType (var_declaredTypeInContext examplePropertyOverride)"
    by (simp add: examplePropertyOverride_def example_types)
  have hs: "sub_getOverriddenDecl exampleSubscriptOverride = Some exampleSubscript \<and>
    \<not> is_BoundGenericType (sub_declaredTypeInContext exampleSubscriptOverride)"
    by (simp add: exampleSubscriptOverride_def example_types)
  have hc: "\<not> is_PolymorphicFunctionType (ctor_getType exampleInit) \<and>
    getAs_AnyFunctionType (ctor_getType exampleInit) =
      Some \<lparr>getInput = NominalType 10,
            getResult = FunctionType (TupleType []) (NominalType 10) False, isBlock = False\<rparr> \<and>
    \<not> is_PolymorphicFunctionType (getResult \<lparr>getInput = NominalType 10,
            getResult = FunctionType (TupleType []) (NominalType 10) False, isBlock = False\<rparr>) \<and>
    \<not> is_BoundGenericType (ctor_declaredTypeInContext exampleInit)"
    by (simp add: exampleInit_def example_types)
  have c: "ctor_isObjC exampleInit"
    by (simp add: exampleInit_def)
  show ?thesis
    using override_propagation [where func = exampleOverride
        and overriddenFunc = exampleMethod
        and ft = "\<lparr>getInput = NominalType 10,
            getResult = FunctionType (TupleType []) (TupleType []) False, isBlock = False\<rparr>"
        and property = examplePropertyOverride and overriddenProperty = exampleProperty
        and subscript = exampleSubscriptOverride and overriddenSubscript = exampleSubscript
        and constructor = exampleInit
        and ctorType = "\<lparr>getInput = NominalType 10,
            getResult = FunctionType (TupleType []) (NominalType 10) False, isBlock = False\<rparr>"]
      hm hp hs hc m p s c
    by simp
qed

text \<open>
  A constructor that is not marked and overrides an eligible constructor is not eligible,
  and neither is a method of a bound generic type that overrides an eligible method.
\<close>

theorem override_not_propagated:
  "ctor_getOverriddenDecl exampleInitOverride = Some exampleInit \<and>
   requiresObjCMethodDescriptor_ConstructorDecl exampleInit = Inr True \<and>
   requiresObjCMethodDescriptor_ConstructorDecl exampleInitOverride = Inr False \<and>
   func_getOverriddenDecl exampleGenericOverride = Some exampleMethod \<and>
   requiresObjCMethodDescriptor_FuncDecl exampleMethod = Inr True \<and>
   requiresObjCMethodDescriptor_FuncDecl exampleGenericOverride = Inr False"
  by (simp add: exampleInitOverride_def exampleInit_def exampleGenericOverride_def
        exampleMethod_def example_types is_BoundGenericType_def)

end
